theory Spec2Isabelle
  imports Complex_Main
begin

section \<open>The V-Net builder of halonet (src/halonet/net/model.py)\<close>

text \<open>
  \<open>get_model\<close> assembles a Keras computation graph by calling layer constructors
  one after the other. The model keeps that effect explicit: the graph is the list of
  the layers created so far, a tensor handle is the position of the layer that produced
  it, and every layer call appends one node and returns its handle. Python integers are
  \<open>int\<close>; the dropout arguments are Python values that are either \<open>False\<close> or a
  float, and only their truth value is ever inspected by the builder.
\<close>

subsection \<open>Data\<close>

type_synonym tensor = nat

type_synonym triple = "nat \<times> nat \<times> nat"

type_synonym shape = "int \<times> int \<times> int \<times> int"

datatype padding = Valid | Same

datatype pyval = PyFalse | PyFloat real

datatype layer =
    Input shape
  | Conv3D int triple triple padding tensor
  | Conv3DTranspose int triple triple tensor
  | BatchNormalization bool tensor
  | LeakyReLU real tensor
  | PReLU tensor
  | Dropout real tensor
  | Add "tensor list"
  | Concatenate int "tensor list"
  | Activation string tensor

type_synonym graph = "layer list"

datatype error = IndexError | NameError | ValueError

record config =
  nlevels :: int
  nfm :: int
  input_shape :: shape
  nconv :: int
  dropout_in :: pyval
  dropout_out :: pyval
  lrelu_alpha :: "real option"
  batch_norm :: bool

record model =
  inputs :: tensor
  outputs :: tensor
  layers :: graph

text \<open>The state threaded through the two loops: the loop variable \<open>x\<close> (unbound
  before the first assignment), \<open>forward_list\<close> and the graph built so far.\<close>

type_synonym bstate = "tensor option \<times> tensor list \<times> graph"

subsection \<open>Python helpers\<close>

definition py_range :: "int \<Rightarrow> int list" where
  "py_range n = map int [0..<nat n]"

text \<open>List indexing as Python does it: an index below zero counts from the end, and
  an index outside the list raises \<open>IndexError\<close>.\<close>

definition py_index :: "'a list \<Rightarrow> int \<Rightarrow> error + 'a" where
  "py_index xs i =
     (if 0 \<le> i \<and> i < int (length xs) then Inr (xs ! nat i)
      else if i < 0 \<and> - int (length xs) \<le> i then Inr (xs ! nat (int (length xs) + i))
      else Inl IndexError)"

definition emit :: "layer \<Rightarrow> graph \<Rightarrow> tensor \<times> graph" where
  "emit l g = (length g, g @ [l])"

definition conv_kernel_size :: triple where
  "conv_kernel_size = (5, 5, 5)"

definition updown_kernel_size :: triple where
  "updown_kernel_size = (2, 2, 2)"

definition updown_stride :: triple where
  "updown_stride = updown_kernel_size"

definition unit_stride :: triple where
  "unit_stride = (1, 1, 1)"

subsection \<open>NonLinearity (model.py, lines 70-84)\<close>

text \<open>
  The keyword arguments \<open>dropout\<close> and \<open>batch_norm\<close> are optional: \<open>None\<close> stands
  for an argument the call site leaves out, which then takes the default of the
  signature, \<open>dropout=False\<close> and \<open>batch_norm=batch_norm\<close> (the flag of
  \<open>get_model\<close>). The argument \<open>lrelu\<close> is never passed, so it is always
  \<open>lrelu_alpha\<close>.
\<close>

definition NonLinearity ::
    "config \<Rightarrow> tensor \<Rightarrow> pyval option \<Rightarrow> bool option \<Rightarrow> graph \<Rightarrow> tensor \<times> graph" where
  "NonLinearity cfg t dropout_arg batch_norm_arg g =
     (let dropout = (case dropout_arg of None \<Rightarrow> PyFalse | Some d \<Rightarrow> d);
          bn = (case batch_norm_arg of None \<Rightarrow> batch_norm cfg | Some b \<Rightarrow> b);
          (to1, g1) = (if bn then emit (BatchNormalization False t) g else (t, g));
          (to2, g2) = (case lrelu_alpha cfg of
                         Some a \<Rightarrow> emit (LeakyReLU a to1) g1
                       | None \<Rightarrow> emit (PReLU to1) g1)
      in case dropout of
           PyFalse \<Rightarrow> (to2, g2)
         | PyFloat r \<Rightarrow> if r \<noteq> 0 then emit (Dropout r to2) g2 else (to2, g2))"

subsection \<open>The additional convolution rounds (lines 102-105 and 136-139)\<close>

fun conv_rounds :: "config \<Rightarrow> int \<Rightarrow> int list \<Rightarrow> tensor \<Rightarrow> graph \<Rightarrow> tensor \<times> graph" where
  "conv_rounds cfg filters [] residual g = (residual, g)"
| "conv_rounds cfg filters (ci # rest) residual g =
     (let (r1, g1) = emit (Conv3D filters conv_kernel_size unit_stride Same residual) g;
          (r2, g2) = NonLinearity cfg r1 (Some (dropout_in cfg))
                       (Some (ci = nconv cfg - 2 \<and> batch_norm cfg)) g1
      in conv_rounds cfg filters rest r2 g2)"

subsection \<open>One encoder level (body of the loop at lines 89-118)\<close>

definition transition_cond :: "int \<Rightarrow> int \<Rightarrow> bool" where
  "transition_cond fi nl = (\<bar>fi - nl\<bar> < nl)"

definition encoder_level :: "config \<Rightarrow> tensor \<Rightarrow> int \<Rightarrow> bstate \<Rightarrow> error + bstate" where
  "encoder_level cfg input_state fi s =
     (case s of (x, forward_list, g) \<Rightarrow>
        (case (if fi = 0 then
                 (let shortcut = input_state;
                      (r1, g1) = emit (Conv3D (nfm cfg) conv_kernel_size unit_stride Same
                                         input_state) g;
                      (r2, g2) = NonLinearity cfg r1 None (Some False) g1
                  in Inr (r2, shortcut, g2))
               else
                 (case x of
                    None \<Rightarrow> Inl NameError
                  | Some xv \<Rightarrow>
                      (let shortcut = xv;
                           (r1, g1) = emit (Conv3D (nfm cfg * 2 ^ nat fi) conv_kernel_size
                                              unit_stride Same xv) g;
                           (r2, g2) = NonLinearity cfg r1 (Some (dropout_in cfg)) (Some False) g1;
                           (r3, g3) = conv_rounds cfg (nfm cfg * 2 ^ nat fi)
                                        (py_range (nconv cfg - 1)) r2 g2
                       in Inr (r3, shortcut, g3)))) of
           Inl e \<Rightarrow> Inl e
         | Inr (residual, shortcut, g3) \<Rightarrow>
             (let (xa, g4) = emit (Add [residual, shortcut]) g3;
                  forward_list' = forward_list @ [xa];
                  (xd, g5) = emit (Conv3D (nfm cfg * 2 ^ nat (fi + 1)) updown_kernel_size
                                     updown_stride Valid xa) g4;
                  (xn, g6) = (if transition_cond fi (nlevels cfg)
                              then NonLinearity cfg xd (Some (dropout_out cfg)) None g5
                              else NonLinearity cfg xd None None g5)
              in Inr (Some xn, forward_list', g6))))"

fun encoder :: "config \<Rightarrow> tensor \<Rightarrow> int list \<Rightarrow> bstate \<Rightarrow> error + bstate" where
  "encoder cfg input_state [] s = Inr s"
| "encoder cfg input_state (fi # fis) s =
     (case encoder_level cfg input_state fi s of
        Inl e \<Rightarrow> Inl e
      | Inr s' \<Rightarrow> encoder cfg input_state fis s')"

subsection \<open>One decoder level (body of the loop at lines 123-147)\<close>

definition decoder_level :: "config \<Rightarrow> int \<Rightarrow> bstate \<Rightarrow> error + bstate" where
  "decoder_level cfg fi s =
     (case s of (x, forward_list, g) \<Rightarrow>
        (case x of
           None \<Rightarrow> Inl NameError
         | Some xv \<Rightarrow>
             (let shortcut = xv in
              case (if fi \<noteq> nlevels cfg - 1 then
                      (case py_index forward_list (fi + 1) of
                         Inl e \<Rightarrow> Inl e
                       | Inr f \<Rightarrow> Inr (emit (Concatenate (- 1) [f, xv]) g))
                    else Inr (xv, g)) of
                Inl e \<Rightarrow> Inl e
              | Inr (xc, g0) \<Rightarrow>
                  (let (r1, g1) = emit (Conv3D (nfm cfg * 2 ^ nat (fi + 1)) conv_kernel_size
                                          unit_stride Same xc) g0;
                       (r2, g2) = NonLinearity cfg r1 (Some (dropout_in cfg)) (Some False) g1;
                       (residual, g3) = conv_rounds cfg (nfm cfg * 2 ^ nat (fi + 1))
                                          (py_range (nconv cfg - 1)) r2 g2;
                       (xa, g4) = emit (Add [residual, shortcut]) g3;
                       (xu, g5) = emit (Conv3DTranspose (nfm cfg * 2 ^ nat fi)
                                          updown_kernel_size updown_stride xa) g4;
                       (xn, g6) = (if transition_cond fi (nlevels cfg)
                                   then NonLinearity cfg xu (Some (dropout_out cfg)) None g5
                                   else NonLinearity cfg xu None None g5)
                   in Inr (Some xn, forward_list, g6)))))"

fun decoder :: "config \<Rightarrow> int list \<Rightarrow> bstate \<Rightarrow> error + bstate" where
  "decoder cfg [] s = Inr s"
| "decoder cfg (fi # fis) s =
     (case decoder_level cfg fi s of
        Inl e \<Rightarrow> Inl e
      | Inr s' \<Rightarrow> decoder cfg fis s')"

subsection \<open>Fusion and classification head (lines 151-167)\<close>

definition head :: "config \<Rightarrow> tensor \<Rightarrow> bstate \<Rightarrow> error + model" where
  "head cfg input_state s =
     (case s of (x, forward_list, g) \<Rightarrow>
        (case py_index forward_list 0 of
           Inl e \<Rightarrow> Inl e
         | Inr f0 \<Rightarrow>
             (case x of
                None \<Rightarrow> Inl NameError
              | Some xv \<Rightarrow>
                  (let (xc, g1) = emit (Concatenate (- 1) [f0, xv]) g;
                       (residual, g2) = emit (Conv3D (nfm cfg) conv_kernel_size unit_stride
                                                Same xc) g1;
                       (shortcut, g3) = emit (Conv3D (nfm cfg) (1, 1, 1) unit_stride Same xc) g2;
                       (xa, g4) = emit (Add [residual, shortcut]) g3;
                       (xn, g5) = NonLinearity cfg xa None (Some False) g4;
                       (xf, g6) = emit (Conv3D 2 (1, 1, 1) unit_stride Valid xn) g5;
                       (xm, g7) = NonLinearity cfg xf None (Some False) g6;
                       (xs, g8) = emit (Activation ''softmax'' xm) g7
                   in Inr \<lparr>inputs = input_state, outputs = xs, layers = g8\<rparr>))))"

subsection \<open>get_model (lines 33-167)\<close>

definition get_model :: "config \<Rightarrow> error + model" where
  "get_model cfg =
     (let (input_state, g0) = emit (Input (input_shape cfg)) [] in
      case encoder cfg input_state (py_range (nlevels cfg)) (None, [], g0) of
        Inl e \<Rightarrow> Inl e
      | Inr s1 \<Rightarrow>
          (case decoder cfg (rev (py_range (nlevels cfg))) s1 of
             Inl e \<Rightarrow> Inl e
           | Inr s2 \<Rightarrow> head cfg input_state s2))"

section \<open>Auxiliary definitions\<close>

text \<open>
  The functions below describe, as plain lists, the layers that a call of the builder
  appends to the graph when the first new layer lands at position \<open>n\<close>. They are
  proved equal to what the builder itself appends before anything is derived from them.
\<close>

definition activation :: "config \<Rightarrow> tensor \<Rightarrow> layer" where
  "activation cfg t = (case lrelu_alpha cfg of Some a \<Rightarrow> LeakyReLU a t | None \<Rightarrow> PReLU t)"

fun truthy :: "pyval \<Rightarrow> bool" where
  "truthy PyFalse = False"
| "truthy (PyFloat r) = (r \<noteq> 0)"

fun rate_of :: "pyval \<Rightarrow> real" where
  "rate_of PyFalse = 0"
| "rate_of (PyFloat r) = r"

definition nonlin_layers :: "config \<Rightarrow> nat \<Rightarrow> tensor \<Rightarrow> pyval \<Rightarrow> bool \<Rightarrow> layer list" where
  "nonlin_layers cfg n t d b =
     (if b then [BatchNormalization False t, activation cfg n] else [activation cfg t]) @
     (if truthy d then [Dropout (rate_of d) (if b then Suc n else n)] else [])"

definition arg_dropout :: "pyval option \<Rightarrow> pyval" where
  "arg_dropout a = (case a of None \<Rightarrow> PyFalse | Some d \<Rightarrow> d)"

definition arg_batch_norm :: "config \<Rightarrow> bool option \<Rightarrow> bool" where
  "arg_batch_norm cfg a = (case a of None \<Rightarrow> batch_norm cfg | Some b \<Rightarrow> b)"

fun rounds_layers :: "config \<Rightarrow> int \<Rightarrow> nat \<Rightarrow> tensor \<Rightarrow> int list \<Rightarrow> layer list" where
  "rounds_layers cfg filters n r [] = []"
| "rounds_layers cfg filters n r (ci # rest) =
     (let nl = nonlin_layers cfg (Suc n) n (dropout_in cfg) (ci = nconv cfg - 2 \<and> batch_norm cfg)
      in Conv3D filters conv_kernel_size unit_stride Same r # nl @
         rounds_layers cfg filters (Suc n + length nl) (n + length nl) rest)"

definition residual_layers :: "config \<Rightarrow> int \<Rightarrow> nat \<Rightarrow> tensor \<Rightarrow> layer list" where
  "residual_layers cfg filters n t =
     (let first = Conv3D filters conv_kernel_size unit_stride Same t #
                  nonlin_layers cfg (Suc n) n (dropout_in cfg) False
      in first @ rounds_layers cfg filters (n + length first) (n + length first - 1)
                   (py_range (nconv cfg - 1)))"

definition transition_dropout :: "config \<Rightarrow> int \<Rightarrow> pyval" where
  "transition_dropout cfg fi =
     (if transition_cond fi (nlevels cfg) then dropout_out cfg else PyFalse)"

definition encoder_residual :: "config \<Rightarrow> int \<Rightarrow> nat \<Rightarrow> tensor \<Rightarrow> layer list" where
  "encoder_residual cfg fi n t =
     (if fi = 0
      then Conv3D (nfm cfg) conv_kernel_size unit_stride Same t #
           nonlin_layers cfg (Suc n) n PyFalse False
      else residual_layers cfg (nfm cfg * 2 ^ nat fi) n t)"

definition encoder_layers :: "config \<Rightarrow> int \<Rightarrow> nat \<Rightarrow> tensor \<Rightarrow> layer list" where
  "encoder_layers cfg fi n t =
     (let res = encoder_residual cfg fi n t; a = n + length res
      in res @
         [Add [a - 1, t],
          Conv3D (nfm cfg * 2 ^ nat (fi + 1)) updown_kernel_size updown_stride Valid a] @
         nonlin_layers cfg (a + 2) (Suc a) (transition_dropout cfg fi) (batch_norm cfg))"

definition decoder_layers ::
    "config \<Rightarrow> int \<Rightarrow> nat \<Rightarrow> tensor \<Rightarrow> tensor option \<Rightarrow> layer list" where
  "decoder_layers cfg fi n t skip =
     (let cat = (case skip of None \<Rightarrow> [] | Some f \<Rightarrow> [Concatenate (- 1) [f, t]]);
          xc = (case skip of None \<Rightarrow> t | Some f \<Rightarrow> n);
          res = residual_layers cfg (nfm cfg * 2 ^ nat (fi + 1)) (n + length cat) xc;
          a = n + length cat + length res
      in cat @ res @
         [Add [a - 1, t],
          Conv3DTranspose (nfm cfg * 2 ^ nat fi) updown_kernel_size updown_stride a] @
         nonlin_layers cfg (a + 2) (Suc a) (transition_dropout cfg fi) (batch_norm cfg))"

definition decoder_skip :: "config \<Rightarrow> int \<Rightarrow> tensor list \<Rightarrow> error + tensor option" where
  "decoder_skip cfg fi fl =
     (if fi \<noteq> nlevels cfg - 1
      then (case py_index fl (fi + 1) of Inl e \<Rightarrow> Inl e | Inr f \<Rightarrow> Inr (Some f))
      else Inr None)"

definition head_layers :: "config \<Rightarrow> nat \<Rightarrow> tensor \<Rightarrow> tensor \<Rightarrow> layer list" where
  "head_layers cfg n f0 t =
     [Concatenate (- 1) [f0, t],
      Conv3D (nfm cfg) (5, 5, 5) (1, 1, 1) Same n,
      Conv3D (nfm cfg) (1, 1, 1) (1, 1, 1) Same n,
      Add [n + 1, n + 2],
      activation cfg (n + 3),
      Conv3D 2 (1, 1, 1) (1, 1, 1) Valid (n + 4),
      activation cfg (n + 5),
      Activation ''softmax'' (n + 6)]"

definition default_config :: "int \<Rightarrow> config" where
  "default_config n =
     \<lparr>nlevels = n, nfm = 16, input_shape = (64, 64, 64, 1), nconv = 2, dropout_in = PyFalse,
      dropout_out = PyFalse, lrelu_alpha = None, batch_norm = False\<rparr>"

fun is_Dropout :: "layer \<Rightarrow> bool" where
  "is_Dropout (Dropout r t) = True"
| "is_Dropout l = False"

fun is_BatchNormalization :: "layer \<Rightarrow> bool" where
  "is_BatchNormalization (BatchNormalization s t) = True"
| "is_BatchNormalization l = False"

subsection \<open>Observations on a graph\<close>

text \<open>
  The filter counts of the strided down-convolutions and of the transposed
  up-convolutions of a graph, and the forwarded tensors that its concatenations read,
  each in the order in which the layers were created. \<open>saved_at\<close> says that the node
  \<open>a\<close> is a residual sum whose first operand is the node before it, and that the very
  next node is the down-convolution of level \<open>fi\<close> reading that sum. \<open>skip_ok\<close> says
  that decoder level \<open>fi\<close> finds the forwarded tensor it asks for.
\<close>

fun down_filter :: "layer \<Rightarrow> int list" where
  "down_filter (Conv3D f k s p t) = (if s = (2, 2, 2) then [f] else [])"
| "down_filter l = []"

definition down_filters :: "graph \<Rightarrow> int list" where
  "down_filters g = concat (map down_filter g)"

fun up_filter :: "layer \<Rightarrow> int list" where
  "up_filter (Conv3DTranspose f k s t) = [f]"
| "up_filter l = []"

definition up_filters :: "graph \<Rightarrow> int list" where
  "up_filters g = concat (map up_filter g)"

fun skip_read :: "layer \<Rightarrow> tensor list" where
  "skip_read (Concatenate ax ts) = take 1 ts"
| "skip_read l = []"

definition skip_reads :: "graph \<Rightarrow> tensor list" where
  "skip_reads g = concat (map skip_read g)"

definition saved_at :: "config \<Rightarrow> graph \<Rightarrow> int \<Rightarrow> tensor \<Rightarrow> bool" where
  "saved_at cfg g fi a =
     (Suc a < length g \<and>
      (case g ! a of Add ts \<Rightarrow> length ts = 2 \<and> hd ts = a - 1 | _ \<Rightarrow> False) \<and>
      g ! Suc a = Conv3D (nfm cfg * 2 ^ nat (fi + 1)) updown_kernel_size updown_stride Valid a)"

definition skip_ok :: "config \<Rightarrow> tensor list \<Rightarrow> int \<Rightarrow> bool" where
  "skip_ok cfg fl fi = (fi = nlevels cfg - 1 \<or> (0 \<le> fi \<and> fi + 1 < int (length fl)))"

text \<open>The filter counts of all convolutions of a graph, transposed ones included.\<close>

fun conv_filter :: "layer \<Rightarrow> int list" where
  "conv_filter (Conv3D f k s p t) = [f]"
| "conv_filter (Conv3DTranspose f k s t) = [f]"
| "conv_filter l = []"

definition conv_filters :: "graph \<Rightarrow> int list" where
  "conv_filters g = concat (map conv_filter g)"

subsection \<open>Blocks of a level\<close>

text \<open>
  The layers of the two transitions, and predicates for the two merging layers.
\<close>

fun is_Add :: "layer \<Rightarrow> bool" where
  "is_Add (Add ts) = True"
| "is_Add l = False"

fun is_Concatenate :: "layer \<Rightarrow> bool" where
  "is_Concatenate (Concatenate ax ts) = True"
| "is_Concatenate l = False"

definition up_transition :: "config \<Rightarrow> int \<Rightarrow> tensor \<Rightarrow> layer list" where
  "up_transition cfg fi a =
     Conv3DTranspose (nfm cfg * 2 ^ nat fi) updown_kernel_size updown_stride a #
     nonlin_layers cfg (a + 2) (Suc a) (transition_dropout cfg fi) (batch_norm cfg)"

definition down_transition :: "config \<Rightarrow> int \<Rightarrow> tensor \<Rightarrow> layer list" where
  "down_transition cfg fi a =
     Conv3D (nfm cfg * 2 ^ nat (fi + 1)) updown_kernel_size updown_stride Valid a #
     nonlin_layers cfg (a + 2) (Suc a) (transition_dropout cfg fi) (batch_norm cfg)"

text \<open>
  The residual block as section 4.2 of the specification words it: a first 5x5x5
  same-padding convolution with its nonlinearity (dropout at the block's rate, batch
  normalisation off), then \<open>nconv - 1\<close> further rounds of convolution and nonlinearity,
  each with dropout at the block's rate, where batch normalisation is on only in the last
  round (no round remaining after it) and only when the flag is set.
\<close>

fun spec_rounds :: "config \<Rightarrow> int \<Rightarrow> nat \<Rightarrow> tensor \<Rightarrow> nat \<Rightarrow> layer list" where
  "spec_rounds cfg channels n r 0 = []"
| "spec_rounds cfg channels n r (Suc remaining) =
     (let nl = nonlin_layers cfg (Suc n) n (dropout_in cfg) (remaining = 0 \<and> batch_norm cfg)
      in Conv3D channels (5, 5, 5) (1, 1, 1) Same r # nl @
         spec_rounds cfg channels (Suc n + length nl) (n + length nl) remaining)"

definition spec_residual_block :: "config \<Rightarrow> int \<Rightarrow> nat \<Rightarrow> tensor \<Rightarrow> layer list" where
  "spec_residual_block cfg channels n t =
     (let first = Conv3D channels (5, 5, 5) (1, 1, 1) Same t #
                  nonlin_layers cfg (Suc n) n (dropout_in cfg) False
      in first @ spec_rounds cfg channels (n + length first) (n + length first - 1)
                   (nat (nconv cfg - 1)))"

text \<open>The block made of a single convolution, its activation and the optional dropout.\<close>

definition single_conv_block :: "config \<Rightarrow> int \<Rightarrow> nat \<Rightarrow> tensor \<Rightarrow> layer list" where
  "single_conv_block cfg channels n t =
     [Conv3D channels (5, 5, 5) (1, 1, 1) Same t, activation cfg n] @
     (if truthy (dropout_in cfg) then [Dropout (rate_of (dropout_in cfg)) (Suc n)] else [])"

text \<open>The graph of the default configuration once encoder level 0 has run.\<close>

definition level0_graph :: graph where
  "level0_graph =
     [Input (64, 64, 64, 1), Conv3D 16 (5, 5, 5) (1, 1, 1) Same 0, PReLU 1, Add [2, 0],
      Conv3D 32 (2, 2, 2) (2, 2, 2) Valid 3, PReLU 4]"

subsection \<open>Shapes\<close>

text \<open>
  The builder hands every layer to the tensor framework (Keras), which is a dependency
  of the repository and computes the shape of each node as the graph grows. These are
  the framework's rules for the layers the builder uses. A tensor has the shape
  \<open>(x, y, z, channels)\<close> (the batch axis is left out). A convolution sets the channel
  count to its filter count; with same-padding and stride 1 it keeps the spatial size,
  without padding and with stride = kernel = 2 it halves it, and the transposed
  convolution doubles it. The activations, batch normalisation and dropout keep the
  shape. A concatenation on the channel axis needs equal spatial sizes and adds the
  channel counts.

  An elementwise addition takes at least two operands and combines their shapes axis by
  axis, from the first operand on: an axis of size 1 is stretched to the size of the
  other operand, and two sizes other than 1 have to be equal. So the framework's
  addition does broadcast an axis of size 1, where section 4.2 of the specification
  says that it does not. A layer whose operands do not fit has no shape, written
  \<open>None\<close>, and neither has a layer that reads it.
\<close>

fun conv_out :: "padding \<Rightarrow> nat \<Rightarrow> nat \<Rightarrow> int \<Rightarrow> int" where
  "conv_out Same k s n = (n + int s - 1) div int s"
| "conv_out Valid k s n = (n - int k) div int s + 1"

definition deconv_out :: "nat \<Rightarrow> nat \<Rightarrow> int \<Rightarrow> int" where
  "deconv_out k s n = n * int s + int (k - s)"

definition shape_at :: "shape option list \<Rightarrow> tensor \<Rightarrow> shape option" where
  "shape_at shs t = (if t < length shs then shs ! t else None)"

definition broadcast_dim :: "int \<Rightarrow> int \<Rightarrow> int option" where
  "broadcast_dim i j =
     (if i = 1 then Some j else if j = 1 then Some i else if i = j then Some i else None)"

fun broadcast :: "shape \<Rightarrow> shape \<Rightarrow> shape option" where
  "broadcast (x, y, z, c) (x', y', z', c') =
     (case (broadcast_dim x x', broadcast_dim y y', broadcast_dim z z', broadcast_dim c c') of
        (Some a, Some b, Some d, Some e) \<Rightarrow> Some (a, b, d, e)
      | _ \<Rightarrow> None)"

fun broadcast_all :: "shape \<Rightarrow> shape option list \<Rightarrow> shape option" where
  "broadcast_all a [] = Some a"
| "broadcast_all a (None # ss) = None"
| "broadcast_all a (Some b # ss) =
     (case broadcast a b of Some c \<Rightarrow> broadcast_all c ss | None \<Rightarrow> None)"

fun add_shapes :: "shape option list \<Rightarrow> shape option" where
  "add_shapes (Some a # s # ss) = broadcast_all a (s # ss)"
| "add_shapes ss = None"

fun concat_shapes :: "shape option list \<Rightarrow> shape option" where
  "concat_shapes [] = None"
| "concat_shapes [s] = s"
| "concat_shapes (s # ss) =
     (case (s, concat_shapes ss) of
        (Some (x, y, z, c), Some (x', y', z', c')) \<Rightarrow>
          if (x, y, z) = (x', y', z') then Some (x, y, z, c + c') else None
      | _ \<Rightarrow> None)"

fun layer_shape :: "shape option list \<Rightarrow> layer \<Rightarrow> shape option" where
  "layer_shape shs (Input s) = Some s"
| "layer_shape shs (Conv3D f (k1, k2, k3) (s1, s2, s3) p t) =
     (case shape_at shs t of
        Some (x, y, z, c) \<Rightarrow> Some (conv_out p k1 s1 x, conv_out p k2 s2 y, conv_out p k3 s3 z, f)
      | None \<Rightarrow> None)"
| "layer_shape shs (Conv3DTranspose f (k1, k2, k3) (s1, s2, s3) t) =
     (case shape_at shs t of
        Some (x, y, z, c) \<Rightarrow> Some (deconv_out k1 s1 x, deconv_out k2 s2 y, deconv_out k3 s3 z, f)
      | None \<Rightarrow> None)"
| "layer_shape shs (BatchNormalization sc t) = shape_at shs t"
| "layer_shape shs (LeakyReLU a t) = shape_at shs t"
| "layer_shape shs (PReLU t) = shape_at shs t"
| "layer_shape shs (Dropout r t) = shape_at shs t"
| "layer_shape shs (Add ts) = add_shapes (map (shape_at shs) ts)"
| "layer_shape shs (Concatenate ax ts) =
     (if ax = - 1 then concat_shapes (map (shape_at shs) ts) else None)"
| "layer_shape shs (Activation name t) = shape_at shs t"

definition infer_shapes :: "graph \<Rightarrow> shape option list" where
  "infer_shapes g = foldl (\<lambda>shs l. shs @ [layer_shape shs l]) [] g"

definition shape_of :: "graph \<Rightarrow> tensor \<Rightarrow> shape option" where
  "shape_of g t = shape_at (infer_shapes g) t"

text \<open>
  The builder validates nothing and catches nothing: an error of the framework at any
  layer ends the call. The framework refuses a convolution or transposed convolution
  whose filter count is not positive, and a layer whose shape does not exist or has an
  axis of non-positive size. \<open>construct\<close> is the construction call as a caller sees it:
  the error of the builder, else the framework's \<open>ValueError\<close> when it refuses a layer
  of the graph, else the model.
\<close>

fun filters_ok :: "layer \<Rightarrow> bool" where
  "filters_ok (Conv3D f k s p t) = (0 < f)"
| "filters_ok (Conv3DTranspose f k s t) = (0 < f)"
| "filters_ok l = True"

fun positive_shape :: "shape option \<Rightarrow> bool" where
  "positive_shape None = False"
| "positive_shape (Some (x, y, z, c)) = (0 < x \<and> 0 < y \<and> 0 < z \<and> 0 < c)"

definition framework_accepts :: "graph \<Rightarrow> bool" where
  "framework_accepts g = (list_all filters_ok g \<and> list_all positive_shape (infer_shapes g))"

definition construct :: "config \<Rightarrow> error + model" where
  "construct cfg =
     (case get_model cfg of
        Inl e \<Rightarrow> Inl e
      | Inr m \<Rightarrow> if framework_accepts (layers m) then Inr m else Inl ValueError)"

text \<open>The first four layers of every graph with at least one level, and the whole
  graph of the default configuration with one level.\<close>

definition level0_head :: "config \<Rightarrow> layer list" where
  "level0_head cfg =
     [Input (input_shape cfg), Conv3D (nfm cfg) (5, 5, 5) (1, 1, 1) Same 0, activation cfg 1,
      Add [2, 0]]"

definition default_layers :: graph where
  "default_layers =
     [Input (64, 64, 64, 1), Conv3D 16 (5, 5, 5) (1, 1, 1) Same 0,
      PReLU 1, Add [2, 0], Conv3D 32 (2, 2, 2) (2, 2, 2) Valid 3,
      PReLU 4, Conv3D 32 (5, 5, 5) (1, 1, 1) Same 5, PReLU 6,
      Conv3D 32 (5, 5, 5) (1, 1, 1) Same 7, PReLU 8, Add [9, 5],
      Conv3DTranspose 16 (2, 2, 2) (2, 2, 2) 10, PReLU 11,
      Concatenate (- 1) [3, 12], Conv3D 16 (5, 5, 5) (1, 1, 1) Same 13,
      Conv3D 16 (1, 1, 1) (1, 1, 1) Same 13, Add [14, 15], PReLU 16,
      Conv3D 2 (1, 1, 1) (1, 1, 1) Valid 17, PReLU 18,
      Activation ''softmax'' 19]"

section \<open>The layers each call appends\<close>

lemma nonlin_layers_nonempty: "nonlin_layers cfg n t d b \<noteq> []"
  by (simp add: nonlin_layers_def)

lemma NonLinearity_layers:
  "NonLinearity cfg t da ba g =
     (length g + length (nonlin_layers cfg (length g) t (arg_dropout da) (arg_batch_norm cfg ba)) - 1,
      g @ nonlin_layers cfg (length g) t (arg_dropout da) (arg_batch_norm cfg ba))"
  by (cases "arg_dropout da")
     (auto simp: NonLinearity_def nonlin_layers_def arg_dropout_def arg_batch_norm_def emit_def
        activation_def Let_def split: option.splits)

lemma conv_rounds_layers:
  "conv_rounds cfg filters cs r g =
     (if cs = [] then r else length g + length (rounds_layers cfg filters (length g) r cs) - 1,
      g @ rounds_layers cfg filters (length g) r cs)"
proof (induction cs arbitrary: r g)
  case Nil
  show ?case by simp
next
  case (Cons ci rest)
  show ?case
    by (simp add: emit_def NonLinearity_layers Cons.IH Let_def arg_dropout_def arg_batch_norm_def
        nonlin_layers_nonempty)
qed

lemma encoder_level_layers:
  "encoder_level cfg input_state fi (x, fl, g) =
     (if fi \<noteq> 0 \<and> x = None then Inl NameError
      else
        (let t = (if fi = 0 then input_state else the x)
         in Inr (Some (length g + length (encoder_layers cfg fi (length g) t) - 1),
                 fl @ [length g + length (encoder_residual cfg fi (length g) t)],
                 g @ encoder_layers cfg fi (length g) t)))"
  apply (cases x)
  apply (simp_all add: encoder_level_def encoder_layers_def encoder_residual_def residual_layers_def
        emit_def NonLinearity_layers
        conv_rounds_layers Let_def arg_dropout_def arg_batch_norm_def transition_dropout_def
        nonlin_layers_nonempty)
  done

lemma residual_layers_nonempty: "residual_layers cfg F n t \<noteq> []"
  by (simp add: residual_layers_def Let_def)

lemma decoder_level_layers:
  "decoder_level cfg fi (x, fl, g) =
     (case x of
        None \<Rightarrow> Inl NameError
      | Some t \<Rightarrow>
          (case decoder_skip cfg fi fl of
             Inl e \<Rightarrow> Inl e
           | Inr skip \<Rightarrow>
               Inr (Some (length g + length (decoder_layers cfg fi (length g) t skip) - 1), fl,
                    g @ decoder_layers cfg fi (length g) t skip)))"
  apply (cases x)
  apply (simp_all add: decoder_level_def decoder_layers_def decoder_skip_def residual_layers_def
        emit_def NonLinearity_layers
        conv_rounds_layers Let_def arg_dropout_def arg_batch_norm_def transition_dropout_def
        nonlin_layers_nonempty add.assoc split: sum.splits)
  done

lemma head_layers_eq:
  "head cfg input_state (x, fl, g) =
     (case py_index fl 0 of
        Inl e \<Rightarrow> Inl e
      | Inr f0 \<Rightarrow>
          (case x of
             None \<Rightarrow> Inl NameError
           | Some t \<Rightarrow>
               Inr \<lparr>inputs = input_state, outputs = length g + 7,
                     layers = g @ head_layers cfg (length g) f0 t\<rparr>))"
  by (simp add: head_def head_layers_def emit_def NonLinearity_layers Let_def arg_dropout_def
      arg_batch_norm_def nonlin_layers_def conv_kernel_size_def unit_stride_def eval_nat_numeral
      split: sum.splits option.splits)

lemma encoder_level_transition:
  assumes "encoder_level cfg inp fi (x, fl, g) = Inr (x', fl', g')"
  shows "\<exists>pre. g' = pre @ Conv3D (nfm cfg * 2 ^ nat (fi + 1)) updown_kernel_size updown_stride
                          Valid (length pre - 1) #
                  nonlin_layers cfg (Suc (length pre)) (length pre) (transition_dropout cfg fi)
                    (batch_norm cfg)"
proof -
  define t where "t = (if fi = 0 then inp else the x)"
  define pre where "pre = g @ encoder_residual cfg fi (length g) t @
      [Add [length g + length (encoder_residual cfg fi (length g) t) - 1, t]]"
  from assms have "g' = g @ encoder_layers cfg fi (length g) t"
    by (auto simp: encoder_level_layers t_def Let_def split: if_splits)
  then have "g' = pre @ Conv3D (nfm cfg * 2 ^ nat (fi + 1)) updown_kernel_size updown_stride
                          Valid (length pre - 1) #
                  nonlin_layers cfg (Suc (length pre)) (length pre) (transition_dropout cfg fi)
                    (batch_norm cfg)"
    by (simp add: encoder_layers_def pre_def Let_def)
  then show ?thesis ..
qed

lemma decoder_level_transition:
  assumes "decoder_level cfg fi (x, fl, g) = Inr (x', fl', g')"
  shows "\<exists>pre. g' = pre @ Conv3DTranspose (nfm cfg * 2 ^ nat fi) updown_kernel_size updown_stride
                          (length pre - 1) #
                  nonlin_layers cfg (Suc (length pre)) (length pre) (transition_dropout cfg fi)
                    (batch_norm cfg)"
proof -
  from assms obtain t skip where g': "g' = g @ decoder_layers cfg fi (length g) t skip"
    by (auto simp: decoder_level_layers split: option.splits sum.splits)
  define cat where "cat = (case skip of None \<Rightarrow> [] | Some f \<Rightarrow> [Concatenate (- 1) [f, t]])"
  define res where "res = residual_layers cfg (nfm cfg * 2 ^ nat (fi + 1)) (length g + length cat)
       (case skip of None \<Rightarrow> t | Some f \<Rightarrow> length g)"
  define pre where "pre = g @ cat @ res @ [Add [length g + length cat + length res - 1, t]]"
  from g' have "g' = pre @ Conv3DTranspose (nfm cfg * 2 ^ nat fi) updown_kernel_size updown_stride
                          (length pre - 1) #
                  nonlin_layers cfg (Suc (length pre)) (length pre) (transition_dropout cfg fi)
                    (batch_norm cfg)"
    by (simp add: decoder_layers_def pre_def cat_def res_def Let_def add.assoc)
  then show ?thesis ..
qed

lemma transition_cond_range: "0 \<le> fi \<Longrightarrow> fi < nl \<Longrightarrow> transition_cond fi nl = (fi \<noteq> 0)"
  by (auto simp: transition_cond_def)

lemma list_ex_Dropout_nonlin: "list_ex is_Dropout (nonlin_layers cfg n t d b) = truthy d"
  by (cases "lrelu_alpha cfg") (auto simp: nonlin_layers_def activation_def)

lemma hd_nonlin_bn:
  "(hd (nonlin_layers cfg n t d b) = BatchNormalization False t) = b"
  by (cases "lrelu_alpha cfg") (auto simp: nonlin_layers_def activation_def)

lemma list_ex_bn_nonlin: "list_ex is_BatchNormalization (nonlin_layers cfg n t d b) = b"
  by (cases "lrelu_alpha cfg") (auto simp: nonlin_layers_def activation_def)

section \<open>The two loops and the whole builder\<close>

lemma down_filters_append [simp]: "down_filters (a @ b) = down_filters a @ down_filters b"
  by (simp add: down_filters_def)

lemma up_filters_append [simp]: "up_filters (a @ b) = up_filters a @ up_filters b"
  by (simp add: up_filters_def)

lemma skip_reads_append [simp]: "skip_reads (a @ b) = skip_reads a @ skip_reads b"
  by (simp add: skip_reads_def)

lemma down_filters_Cons [simp]: "down_filters (l # b) = down_filter l @ down_filters b"
  by (simp add: down_filters_def)

lemma up_filters_Cons [simp]: "up_filters (l # b) = up_filter l @ up_filters b"
  by (simp add: up_filters_def)

lemma skip_reads_Cons [simp]: "skip_reads (l # b) = skip_read l @ skip_reads b"
  by (simp add: skip_reads_def)

lemma observe_Nil [simp]: "down_filters [] = []" "up_filters [] = []" "skip_reads [] = []"
  by (simp_all add: down_filters_def up_filters_def skip_reads_def)

lemma observe_activation [simp]:
  "down_filter (activation cfg t) = []" "up_filter (activation cfg t) = []"
  "skip_read (activation cfg t) = []"
  by (simp_all add: activation_def split: option.splits)

lemma observe_nonlin [simp]:
  "down_filters (nonlin_layers cfg n t d b) = []"
  "up_filters (nonlin_layers cfg n t d b) = []"
  "skip_reads (nonlin_layers cfg n t d b) = []"
  by (simp_all add: nonlin_layers_def)

lemma observe_rounds [simp]:
  "down_filters (rounds_layers cfg F n r cs) = []"
  "up_filters (rounds_layers cfg F n r cs) = []"
  "skip_reads (rounds_layers cfg F n r cs) = []"
  by (induction cs arbitrary: n r; simp add: Let_def unit_stride_def)+

lemma observe_residual [simp]:
  "down_filters (residual_layers cfg F n t) = []"
  "up_filters (residual_layers cfg F n t) = []"
  "skip_reads (residual_layers cfg F n t) = []"
  by (simp_all add: residual_layers_def Let_def unit_stride_def)

lemma observe_encoder_residual [simp]:
  "down_filters (encoder_residual cfg fi n t) = []"
  "up_filters (encoder_residual cfg fi n t) = []"
  "skip_reads (encoder_residual cfg fi n t) = []"
  by (simp_all add: encoder_residual_def unit_stride_def)

lemma observe_encoder_layers:
  "down_filters (encoder_layers cfg fi n t) = [nfm cfg * 2 ^ nat (fi + 1)]"
  "up_filters (encoder_layers cfg fi n t) = []"
  "skip_reads (encoder_layers cfg fi n t) = []"
  by (simp_all add: encoder_layers_def Let_def updown_stride_def updown_kernel_size_def)

lemma observe_decoder_layers:
  "down_filters (decoder_layers cfg fi n t skip) = []"
  "up_filters (decoder_layers cfg fi n t skip) = [nfm cfg * 2 ^ nat fi]"
  "skip_reads (decoder_layers cfg fi n t skip) = (case skip of None \<Rightarrow> [] | Some f \<Rightarrow> [f])"
  by (simp_all add: decoder_layers_def Let_def split: option.splits)

lemma observe_head_layers:
  "down_filters (head_layers cfg n f0 t) = []"
  "up_filters (head_layers cfg n f0 t) = []"
  "skip_reads (head_layers cfg n f0 t) = [f0]"
  by (simp_all add: head_layers_def)

lemma encoder_layers_nonempty: "encoder_layers cfg fi n t \<noteq> []"
  by (simp add: encoder_layers_def Let_def)

lemma decoder_layers_nonempty: "decoder_layers cfg fi n t skip \<noteq> []"
  by (simp add: decoder_layers_def Let_def)

text \<open>The encoder loop.\<close>

lemma encoder_total:
  "x \<noteq> None \<or> fis = [] \<or> hd fis = 0 \<Longrightarrow> \<exists>s. encoder cfg inp fis (x, fl, g) = Inr s"
proof (induction fis arbitrary: x fl g)
  case Nil
  show ?case by simp
next
  case (Cons fi fis)
  then have "fi = 0 \<or> x \<noteq> None" by auto
  then obtain x' fl' g' where
    "encoder_level cfg inp fi (x, fl, g) = Inr (Some x', fl', g')"
    by (auto simp: encoder_level_layers Let_def)
  moreover have "\<exists>s. encoder cfg inp fis (Some x', fl', g') = Inr s"
    by (rule Cons.IH) simp
  ultimately show ?case by simp
qed

lemma encoder_observe:
  "encoder cfg inp fis (x, fl, g) = Inr (x', fl', g') \<Longrightarrow>
     down_filters g' = down_filters g @ map (\<lambda>fi. nfm cfg * 2 ^ nat (fi + 1)) fis \<and>
     up_filters g' = up_filters g \<and> skip_reads g' = skip_reads g \<and>
     length fl' = length fl + length fis \<and>
     (fis \<noteq> [] \<longrightarrow> x' = Some (length g' - 1)) \<and> (fis = [] \<longrightarrow> x' = x \<and> g' = g \<and> fl' = fl) \<and>
     length g \<le> length g'"
proof (induction fis arbitrary: x fl g)
  case Nil
  then show ?case by simp
next
  case (Cons fi fis)
  from Cons.prems obtain s where s: "encoder_level cfg inp fi (x, fl, g) = Inr s"
    and r: "encoder cfg inp fis s = Inr (x', fl', g')"
    by (auto split: sum.splits)
  obtain x1 fl1 g1 where s1: "s = (x1, fl1, g1)" by (cases s)
  from s obtain t where g1: "g1 = g @ encoder_layers cfg fi (length g) t"
    and fl1: "length fl1 = Suc (length fl)" and x1: "x1 = Some (length g1 - 1)"
    unfolding s1 by (auto simp: encoder_level_layers Let_def split: if_splits)
  note ih = Cons.IH [OF r [unfolded s1]]
  show ?case
    using ih by (cases "fis = []") (simp_all add: g1 fl1 x1 observe_encoder_layers)
qed

lemma saved_at_append: "saved_at cfg g fi a \<Longrightarrow> saved_at cfg (g @ h) fi a"
  by (auto simp: saved_at_def nth_append)

lemma saved_at_encoder_layers:
  "saved_at cfg (g @ encoder_layers cfg fi (length g) t) fi
     (length g + length (encoder_residual cfg fi (length g) t))"
  by (simp add: saved_at_def encoder_layers_def Let_def nth_append)

lemma encoder_entries:
  "encoder cfg inp fis (x, fl, g) = Inr (x', fl', g') \<Longrightarrow>
     \<exists>adds new. fl' = fl @ adds \<and> g' = g @ new \<and>
       list_all2 (saved_at cfg g') fis adds \<and>
       (\<forall>a\<in>set adds. length g \<le> a) \<and> sorted_wrt (<) adds"
proof (induction fis arbitrary: x fl g)
  case Nil
  then show ?case by simp
next
  case (Cons fi fis)
  from Cons.prems obtain s where s: "encoder_level cfg inp fi (x, fl, g) = Inr s"
    and r: "encoder cfg inp fis s = Inr (x', fl', g')"
    by (auto split: sum.splits)
  obtain x1 fl1 g1 where s1: "s = (x1, fl1, g1)" by (cases s)
  from s obtain t where g1: "g1 = g @ encoder_layers cfg fi (length g) t"
    and fl1: "fl1 = fl @ [length g + length (encoder_residual cfg fi (length g) t)]"
    unfolding s1 by (auto simp: encoder_level_layers Let_def split: if_splits)
  define a where "a = length g + length (encoder_residual cfg fi (length g) t)"
  have a1: "saved_at cfg g1 fi a"
    unfolding g1 a_def by (rule saved_at_encoder_layers)
  have a2: "a < length g1"
    using a1 by (simp add: saved_at_def)
  from Cons.IH [OF r [unfolded s1]] obtain adds new where
    fl': "fl' = fl1 @ adds" and g': "g' = g1 @ new" and
    l: "list_all2 (saved_at cfg g') fis adds" and
    b: "\<forall>a\<in>set adds. length g1 \<le> a" and so: "sorted_wrt (<) adds"
    by blast
  have "fl' = fl @ (a # adds)"
    by (simp add: fl' fl1 a_def)
  moreover have "g' = g @ (encoder_layers cfg fi (length g) t @ new)"
    by (simp add: g' g1)
  moreover have "list_all2 (saved_at cfg g') (fi # fis) (a # adds)"
    using l a1 by (simp add: g' saved_at_append)
  moreover have "\<forall>a\<in>set (a # adds). length g \<le> a"
    using b by (auto simp: a_def g1)
  moreover have "sorted_wrt (<) (a # adds)"
    using so b a2 by auto
  ultimately show ?case by blast
qed

text \<open>The decoder loop.\<close>

lemma decoder_skip_ok:
  "skip_ok cfg fl fi \<Longrightarrow>
     decoder_skip cfg fi fl =
       Inr (if fi = nlevels cfg - 1 then None else Some (fl ! nat (fi + 1)))"
  by (auto simp: skip_ok_def decoder_skip_def py_index_def)

lemma decoder_observe:
  "\<forall>fi\<in>set fis. skip_ok cfg fl fi \<Longrightarrow>
     \<exists>x' new. decoder cfg fis (Some t, fl, g) = Inr (x', fl, g @ new) \<and>
       (x' = (if fis = [] then Some t else Some (length g + length new - 1))) \<and>
       (fis \<noteq> [] \<longrightarrow> new \<noteq> []) \<and> (fis = [] \<longrightarrow> new = []) \<and>
       down_filters new = [] \<and>
       up_filters new = map (\<lambda>fi. nfm cfg * 2 ^ nat fi) fis \<and>
       skip_reads new =
         concat (map (\<lambda>fi. if fi = nlevels cfg - 1 then [] else [fl ! nat (fi + 1)]) fis)"
proof (induction fis arbitrary: t g)
  case Nil
  show ?case by simp
next
  case (Cons fi fis)
  then have ok: "skip_ok cfg fl fi" and rest: "\<forall>fi\<in>set fis. skip_ok cfg fl fi"
    by simp_all
  define skip where "skip = (if fi = nlevels cfg - 1 then None else Some (fl ! nat (fi + 1)))"
  define new1 where "new1 = decoder_layers cfg fi (length g) t skip"
  have step: "decoder_level cfg fi (Some t, fl, g) =
                Inr (Some (length g + length new1 - 1), fl, g @ new1)"
    by (simp add: decoder_level_layers decoder_skip_ok [OF ok] skip_def new1_def)
  have ne: "new1 \<noteq> []"
    unfolding new1_def by (rule decoder_layers_nonempty)
  from Cons.IH [OF rest, of "length g + length new1 - 1" "g @ new1"]
  obtain x' new where
    d: "decoder cfg fis (Some (length g + length new1 - 1), fl, g @ new1) =
          Inr (x', fl, (g @ new1) @ new)" and
    x': "x' = (if fis = [] then Some (length g + length new1 - 1)
               else Some (length (g @ new1) + length new - 1))" and
    n: "fis \<noteq> [] \<longrightarrow> new \<noteq> []" and n0: "fis = [] \<longrightarrow> new = []" and
    o1: "down_filters new = []" and
    o2: "up_filters new = map (\<lambda>fi. nfm cfg * 2 ^ nat fi) fis" and
    o3: "skip_reads new =
         concat (map (\<lambda>fi. if fi = nlevels cfg - 1 then [] else [fl ! nat (fi + 1)]) fis)"
    by blast
  have "decoder cfg (fi # fis) (Some t, fl, g) = Inr (x', fl, g @ (new1 @ new))"
    using step d by simp
  moreover have "x' = (if fi # fis = [] then Some t
                       else Some (length g + length (new1 @ new) - 1))"
    using x' n n0 ne by (cases "fis = []") (simp_all add: add.assoc)
  moreover have "down_filters (new1 @ new) = []"
    by (simp add: o1 new1_def observe_decoder_layers)
  moreover have "up_filters (new1 @ new) = map (\<lambda>fi. nfm cfg * 2 ^ nat fi) (fi # fis)"
    by (simp add: o2 new1_def observe_decoder_layers)
  moreover have "skip_reads (new1 @ new) =
         concat (map (\<lambda>fi. if fi = nlevels cfg - 1 then [] else [fl ! nat (fi + 1)]) (fi # fis))"
    by (simp add: o3 new1_def observe_decoder_layers skip_def)
  ultimately show ?case
    using ne by (intro exI [of _ x'] exI [of _ "new1 @ new"]) simp
qed

lemma concat_singletons: "concat (map (\<lambda>i. [h i]) xs) = map h xs"
  by (induction xs) simp_all

lemma skip_concat:
  assumes "length fl = Suc k" and "N = int (Suc k)"
  shows "concat (map (\<lambda>fi. if fi = N - 1 then [] else [fl ! nat (fi + 1)])
           (rev (map int [0..<Suc k]))) = rev (tl fl)"
proof -
  have t: "tl fl = map (\<lambda>i. fl ! Suc i) [0..<k]"
    using assms(1) by (simp add: list_eq_iff_nth_eq nth_tl)
  have "map (\<lambda>fi. if fi = N - 1 then [] else [fl ! nat (fi + 1)]) (map int (rev [0..<k])) =
        map (\<lambda>i. [fl ! Suc i]) (rev [0..<k])"
    using assms(2) by (auto simp: nat_add_distrib)
  then have "concat (map (\<lambda>fi. if fi = N - 1 then [] else [fl ! nat (fi + 1)])
               (map int (rev [0..<k]))) = map (\<lambda>i. fl ! Suc i) (rev [0..<k])"
    by (simp only: concat_singletons)
  then show ?thesis
    using assms(2) by (simp add: t rev_map)
qed

lemma py_range_pos: "1 \<le> n \<Longrightarrow> py_range n = 0 # map int [1..<nat n]"
  by (simp add: py_range_def upt_conv_Cons)

lemma get_model_run:
  assumes "1 \<le> nlevels cfg"
  obtains x fl g x' new where
    "encoder cfg 0 (py_range (nlevels cfg)) (None, [], [Input (input_shape cfg)]) =
       Inr (Some x, fl, g)"
    and "x = length g - 1"
    and "length fl = nat (nlevels cfg)"
    and "list_all2 (saved_at cfg g) (py_range (nlevels cfg)) fl"
    and "sorted_wrt (<) fl"
    and "\<exists>rest. g = Input (input_shape cfg) # rest"
    and "down_filters g = map (\<lambda>fi. nfm cfg * 2 ^ nat (fi + 1)) (py_range (nlevels cfg))"
    and "up_filters g = []" and "skip_reads g = []"
    and "decoder cfg (rev (py_range (nlevels cfg))) (Some x, fl, g) = Inr (Some x', fl, g @ new)"
    and "x' = length g + length new - 1" and "new \<noteq> []"
    and "down_filters new = []"
    and "up_filters new = map (\<lambda>fi. nfm cfg * 2 ^ nat fi) (rev (py_range (nlevels cfg)))"
    and "skip_reads new = rev (tl fl)"
    and "get_model cfg =
           Inr \<lparr>inputs = 0, outputs = length g + length new + 7,
                layers = g @ new @ head_layers cfg (length g + length new) (fl ! 0) x'\<rparr>"
proof -
  define n where "n = nlevels cfg"
  define g0 where "g0 = [Input (input_shape cfg)]"
  have n1: "1 \<le> n" using assms by (simp add: n_def)
  have ne: "py_range n \<noteq> []" "hd (py_range n) = 0"
    using n1 by (simp_all add: py_range_pos)
  from encoder_total [of None "py_range n" cfg 0 "[]" g0] ne
  obtain s where e0: "encoder cfg 0 (py_range n) (None, [], g0) = Inr s"
    by blast
  obtain x1 fl g where s: "s = (x1, fl, g)" by (cases s)
  note e = e0 [unfolded s]
  from encoder_observe [OF e] ne have
    o1: "down_filters g = map (\<lambda>fi. nfm cfg * 2 ^ nat (fi + 1)) (py_range n)" and
    o2: "up_filters g = []" and o3: "skip_reads g = []" and
    lf: "length fl = length (py_range n)" and x1: "x1 = Some (length g - 1)"
    by (simp_all add: g0_def)
  from encoder_entries [OF e] obtain rest where
    g: "g = g0 @ rest" and sv: "list_all2 (saved_at cfg g) (py_range n) fl" and
    so: "sorted_wrt (<) fl"
    by auto
  have lfn: "length fl = nat n"
    using lf by (simp add: py_range_def)
  have ok: "\<forall>fi\<in>set (rev (py_range n)). skip_ok cfg fl fi"
    using lfn by (auto simp: skip_ok_def py_range_def n_def)
  from decoder_observe [OF ok, of "length g - 1" g] ne
  obtain x2 new where
    d: "decoder cfg (rev (py_range n)) (Some (length g - 1), fl, g) = Inr (x2, fl, g @ new)" and
    x2: "x2 = Some (length g + length new - 1)" and nn: "new \<noteq> []" and
    p1: "down_filters new = []" and
    p2: "up_filters new = map (\<lambda>fi. nfm cfg * 2 ^ nat fi) (rev (py_range n))" and
    p3: "skip_reads new =
           concat (map (\<lambda>fi. if fi = nlevels cfg - 1 then [] else [fl ! nat (fi + 1)])
             (rev (py_range n)))"
    by auto
  obtain k where k: "nat n = Suc k"
    using n1 by (cases "nat n") simp_all
  have nk: "n = int (Suc k)"
    using k n1 by linarith
  have p3': "skip_reads new = rev (tl fl)"
    using skip_concat [of fl k n] lfn k nk p3 by (simp add: py_range_def n_def)
  have ix: "py_index fl 0 = Inr (fl ! 0)"
    using lfn k by (simp add: py_index_def)
  have gm: "get_model cfg =
           Inr \<lparr>inputs = 0, outputs = length g + length new + 7,
                layers = g @ new @ head_layers cfg (length g + length new) (fl ! 0)
                  (length g + length new - 1)\<rparr>"
    using e d by (simp add: get_model_def emit_def n_def [symmetric] g0_def [symmetric] x1 x2
        head_layers_eq ix)
  show ?thesis
    using that [of "length g - 1" fl g "length g + length new - 1" new]
      e d x1 x2 lfn sv so g o1 o2 o3 nn p1 p2 p3' gm
    by (simp add: n_def g0_def)
qed

lemma conv_filters_append [simp]: "conv_filters (a @ b) = conv_filters a @ conv_filters b"
  by (simp add: conv_filters_def)

lemma conv_filters_Cons [simp]: "conv_filters (l # b) = conv_filter l @ conv_filters b"
  by (simp add: conv_filters_def)

lemma conv_filters_Nil [simp]: "conv_filters [] = []"
  by (simp add: conv_filters_def)

lemma conv_filters_nonlin [simp]: "conv_filters (nonlin_layers cfg n t d b) = []"
  by (simp add: nonlin_layers_def activation_def split: option.splits)

lemma conv_filters_rounds [simp]:
  "conv_filters (rounds_layers cfg F n r cs) = replicate (length cs) F"
  by (induction cs arbitrary: n r) (simp_all add: Let_def)

lemma conv_filters_residual [simp]:
  "conv_filters (residual_layers cfg F n t) = replicate (Suc (nat (nconv cfg - 1))) F"
  by (simp add: residual_layers_def Let_def py_range_def)

lemma conv_filters_encoder_layers:
  "conv_filters (encoder_layers cfg fi n t) =
     replicate (if fi = 0 then 1 else Suc (nat (nconv cfg - 1))) (nfm cfg * 2 ^ nat fi) @
     [nfm cfg * 2 ^ nat (fi + 1)]"
  by (simp add: encoder_layers_def encoder_residual_def Let_def)

lemma conv_filters_decoder_layers:
  "conv_filters (decoder_layers cfg fi n t skip) =
     replicate (Suc (nat (nconv cfg - 1))) (nfm cfg * 2 ^ nat (fi + 1)) @ [nfm cfg * 2 ^ nat fi]"
  by (simp add: decoder_layers_def Let_def split: option.splits)

lemma decoder_level_reads:
  assumes "skip_ok cfg fl fi"
  shows "\<exists>y h'. decoder_level cfg fi (Some t, fl, h) = Inr (y, fl, h') \<and>
           skip_reads h' = skip_reads h @
             (if fi = nlevels cfg - 1 then [] else [fl ! nat (fi + 1)])"
  by (simp add: decoder_level_layers decoder_skip_ok [OF assms] observe_decoder_layers)

section \<open>Configurations with at most one convolution per block\<close>

lemma nonlin_layers_nconv: "nonlin_layers (cfg\<lparr>nconv := k\<rparr>) = nonlin_layers cfg"
  by (intro ext) (simp add: nonlin_layers_def activation_def)

lemma py_range_empty: "n \<le> 0 \<Longrightarrow> py_range n = []"
  by (simp add: py_range_def)

lemma residual_layers_nconv:
  "nconv cfg \<le> 1 \<Longrightarrow> residual_layers (cfg\<lparr>nconv := 1\<rparr>) = residual_layers cfg"
  by (intro ext) (simp add: residual_layers_def nonlin_layers_nconv py_range_empty Let_def)

lemma encoder_layers_nconv:
  "nconv cfg \<le> 1 \<Longrightarrow> encoder_layers (cfg\<lparr>nconv := 1\<rparr>) = encoder_layers cfg"
  "nconv cfg \<le> 1 \<Longrightarrow> encoder_residual (cfg\<lparr>nconv := 1\<rparr>) = encoder_residual cfg"
  by (intro ext, simp add: encoder_layers_def encoder_residual_def residual_layers_nconv
        nonlin_layers_nconv transition_dropout_def)+

lemma decoder_layers_nconv:
  "nconv cfg \<le> 1 \<Longrightarrow> decoder_layers (cfg\<lparr>nconv := 1\<rparr>) = decoder_layers cfg"
  by (intro ext) (simp add: decoder_layers_def residual_layers_nconv nonlin_layers_nconv
        transition_dropout_def)

lemma decoder_skip_nconv: "decoder_skip (cfg\<lparr>nconv := k\<rparr>) = decoder_skip cfg"
  by (intro ext) (simp add: decoder_skip_def)

lemma head_layers_nconv: "head_layers (cfg\<lparr>nconv := k\<rparr>) = head_layers cfg"
  by (intro ext) (simp add: head_layers_def activation_def)

lemma encoder_level_nconv:
  "nconv cfg \<le> 1 \<Longrightarrow> encoder_level (cfg\<lparr>nconv := 1\<rparr>) inp fi s = encoder_level cfg inp fi s"
  by (cases s) (simp add: encoder_level_layers encoder_layers_nconv)

lemma decoder_level_nconv:
  "nconv cfg \<le> 1 \<Longrightarrow> decoder_level (cfg\<lparr>nconv := 1\<rparr>) fi s = decoder_level cfg fi s"
  by (cases s)
     (simp add: decoder_level_layers decoder_layers_nconv decoder_skip_nconv
        split: option.splits sum.splits)

lemma encoder_nconv:
  "nconv cfg \<le> 1 \<Longrightarrow> encoder (cfg\<lparr>nconv := 1\<rparr>) inp fis s = encoder cfg inp fis s"
  by (induction fis arbitrary: s) (simp_all add: encoder_level_nconv split: sum.splits)

lemma decoder_nconv:
  "nconv cfg \<le> 1 \<Longrightarrow> decoder (cfg\<lparr>nconv := 1\<rparr>) fis s = decoder cfg fis s"
  by (induction fis arbitrary: s) (simp_all add: decoder_level_nconv split: sum.splits)

lemma head_nconv: "head (cfg\<lparr>nconv := 1\<rparr>) inp s = head cfg inp s"
  by (cases s) (simp add: head_layers_eq head_layers_nconv split: option.splits sum.splits)

lemma get_model_nconv: "nconv cfg \<le> 1 \<Longrightarrow> get_model (cfg\<lparr>nconv := 1\<rparr>) = get_model cfg"
  by (simp add: get_model_def encoder_nconv decoder_nconv head_nconv
      split: sum.splits prod.splits)

lemma get_model_no_levels: "nlevels cfg \<le> 0 \<Longrightarrow> get_model cfg = Inl IndexError"
  by (simp add: get_model_def py_range_empty emit_def head_def py_index_def)

section \<open>The residual block of a level\<close>

lemma merges_activation [simp]:
  "\<not> is_Add (activation cfg t)" "\<not> is_Concatenate (activation cfg t)"
  "\<not> is_BatchNormalization (activation cfg t)" "\<not> is_Dropout (activation cfg t)"
  by (simp_all add: activation_def split: option.splits)

lemma merges_nonlin [simp]:
  "\<not> list_ex is_Add (nonlin_layers cfg n t d b)"
  "\<not> list_ex is_Concatenate (nonlin_layers cfg n t d b)"
  by (simp_all add: nonlin_layers_def)

lemma merges_rounds [simp]:
  "\<not> list_ex is_Add (rounds_layers cfg F n r cs)"
  "\<not> list_ex is_Concatenate (rounds_layers cfg F n r cs)"
  by (induction cs arbitrary: n r; simp add: Let_def)+

lemma merges_residual [simp]:
  "\<not> list_ex is_Add (residual_layers cfg F n t)"
  "\<not> list_ex is_Concatenate (residual_layers cfg F n t)"
  by (simp_all add: residual_layers_def Let_def)

lemma merges_up_transition [simp]:
  "\<not> list_ex is_Add (up_transition cfg fi a)"
  "\<not> list_ex is_Concatenate (up_transition cfg fi a)"
  by (simp_all add: up_transition_def)

lemma hd_residual_layers:
  "hd (residual_layers cfg F n t) = Conv3D F conv_kernel_size unit_stride Same t"
  by (simp add: residual_layers_def Let_def)

lemma encoder_level_block:
  assumes "fi \<noteq> 0"
  shows "encoder_level cfg inp fi (Some t, fl, g) =
     Inr (Some (length g + length (residual_layers cfg (nfm cfg * 2 ^ nat fi) (length g) t) +
                length (down_transition cfg fi
                  (length g + length (residual_layers cfg (nfm cfg * 2 ^ nat fi) (length g) t)))),
          fl @ [length g + length (residual_layers cfg (nfm cfg * 2 ^ nat fi) (length g) t)],
          g @ residual_layers cfg (nfm cfg * 2 ^ nat fi) (length g) t @
            Add [length g + length (residual_layers cfg (nfm cfg * 2 ^ nat fi) (length g) t) - 1, t] #
            down_transition cfg fi
              (length g + length (residual_layers cfg (nfm cfg * 2 ^ nat fi) (length g) t)))"
  using assms
  by (simp add: encoder_level_layers encoder_layers_def encoder_residual_def Let_def
      down_transition_def)

lemma decoder_level_block_deepest:
  assumes "fi = nlevels cfg - 1"
  shows "decoder_level cfg fi (Some t, fl, g) =
     Inr (Some (length g + length (residual_layers cfg (nfm cfg * 2 ^ nat (fi + 1)) (length g) t) +
                length (up_transition cfg fi
                  (length g + length (residual_layers cfg (nfm cfg * 2 ^ nat (fi + 1)) (length g) t)))),
          fl,
          g @ residual_layers cfg (nfm cfg * 2 ^ nat (fi + 1)) (length g) t @
            Add [length g + length (residual_layers cfg (nfm cfg * 2 ^ nat (fi + 1)) (length g) t) - 1,
                 t] #
            up_transition cfg fi
              (length g + length (residual_layers cfg (nfm cfg * 2 ^ nat (fi + 1)) (length g) t)))"
  using assms
  by (simp add: decoder_level_layers decoder_skip_def decoder_layers_def Let_def
      up_transition_def)

lemma decoder_level_block_skip:
  assumes "fi \<noteq> nlevels cfg - 1" and "0 \<le> fi" and "fi + 1 < int (length fl)"
  shows "decoder_level cfg fi (Some t, fl, g) =
     Inr (Some (Suc (length g) +
                length (residual_layers cfg (nfm cfg * 2 ^ nat (fi + 1)) (Suc (length g)) (length g)) +
                length (up_transition cfg fi
                  (Suc (length g) + length (residual_layers cfg (nfm cfg * 2 ^ nat (fi + 1))
                     (Suc (length g)) (length g))))),
          fl,
          g @ Concatenate (- 1) [fl ! nat (fi + 1), t] #
            residual_layers cfg (nfm cfg * 2 ^ nat (fi + 1)) (Suc (length g)) (length g) @
            Add [length g + length (residual_layers cfg (nfm cfg * 2 ^ nat (fi + 1))
                   (Suc (length g)) (length g)), t] #
            up_transition cfg fi
              (Suc (length g) + length (residual_layers cfg (nfm cfg * 2 ^ nat (fi + 1))
                     (Suc (length g)) (length g))))"
proof -
  have "skip_ok cfg fl fi"
    using assms by (simp add: skip_ok_def)
  from decoder_skip_ok [OF this] assms(1) show ?thesis
    by (simp add: decoder_level_layers decoder_layers_def Let_def up_transition_def)
qed

lemma rounds_spec:
  "int K = nconv cfg - 1 \<Longrightarrow> d = K - k \<Longrightarrow> k \<le> K \<Longrightarrow>
     rounds_layers cfg F n r (map int [k..<K]) = spec_rounds cfg F n r d"
proof (induction d arbitrary: k n r)
  case 0
  then show ?case by simp
next
  case (Suc d)
  then have k: "k < K" and d: "d = K - Suc k" by simp_all
  have c: "(int k = nconv cfg - 2) = (d = 0)"
    using Suc.prems(1) k d by auto
  have u: "[k..<K] = k # [Suc k..<K]"
    using k by (simp add: upt_conv_Cons)
  show ?case
    using Suc.IH [OF Suc.prems(1) d] k
    by (simp add: u c Let_def conv_kernel_size_def unit_stride_def)
qed

lemma residual_layers_spec: "residual_layers cfg F n t = spec_residual_block cfg F n t"
proof (cases "0 \<le> nconv cfg - 1")
  case True
  then have "int (nat (nconv cfg - 1)) = nconv cfg - 1" by simp
  from rounds_spec [OF this, of "nat (nconv cfg - 1)" 0] show ?thesis
    by (simp add: residual_layers_def spec_residual_block_def py_range_def Let_def
        conv_kernel_size_def unit_stride_def)
next
  case False
  then show ?thesis
    by (simp add: residual_layers_def spec_residual_block_def py_range_def Let_def
        conv_kernel_size_def unit_stride_def)
qed

lemma count_nonlin:
  "length (filter is_BatchNormalization (nonlin_layers cfg n t d b)) = (if b then 1 else 0)"
  "length (filter is_Dropout (nonlin_layers cfg n t d b)) = (if truthy d then 1 else 0)"
  by (simp_all add: nonlin_layers_def)

lemma count_spec_rounds:
  "length (filter is_BatchNormalization (spec_rounds cfg F n r k)) =
     (if batch_norm cfg \<and> 0 < k then 1 else 0)"
  "length (filter is_Dropout (spec_rounds cfg F n r k)) =
     (if truthy (dropout_in cfg) then k else 0)"
  by (induction k arbitrary: n r; simp add: Let_def count_nonlin)+

lemma count_spec_block:
  "length (filter is_BatchNormalization (spec_residual_block cfg F n t)) =
     (if batch_norm cfg \<and> 2 \<le> nconv cfg then 1 else 0)"
  "length (filter is_Dropout (spec_residual_block cfg F n t)) =
     (if truthy (dropout_in cfg) then Suc (nat (nconv cfg - 1)) else 0)"
  by (auto simp: spec_residual_block_def Let_def count_nonlin count_spec_rounds)

lemma residual_layers_single:
  "nconv cfg = 1 \<Longrightarrow> residual_layers cfg F n t = single_conv_block cfg F n t"
  by (simp add: residual_layers_def single_conv_block_def py_range_def Let_def nonlin_layers_def
      conv_kernel_size_def unit_stride_def)

section \<open>Shapes of the first level\<close>

lemma infer_shapes_snoc:
  "infer_shapes (g @ [l]) = infer_shapes g @ [layer_shape (infer_shapes g) l]"
  by (simp add: infer_shapes_def)

lemma length_infer_shapes [simp]: "length (infer_shapes g) = length g"
  by (induction g rule: rev_induct) (simp_all add: infer_shapes_snoc, simp add: infer_shapes_def)

lemma infer_shapes_append: "\<exists>r. infer_shapes (g @ h) = infer_shapes g @ r"
proof (induction h rule: rev_induct)
  case Nil
  show ?case by simp
next
  case (snoc l h)
  then obtain r where "infer_shapes (g @ h) = infer_shapes g @ r" ..
  then have "infer_shapes (g @ h @ [l]) =
             infer_shapes g @ (r @ [layer_shape (infer_shapes (g @ h)) l])"
    using infer_shapes_snoc [of "g @ h" l] by simp
  then show ?case by auto
qed

lemma shape_of_append: "t < length g \<Longrightarrow> shape_of (g @ h) t = shape_of g t"
proof -
  assume t: "t < length g"
  obtain r where "infer_shapes (g @ h) = infer_shapes g @ r"
    using infer_shapes_append by blast
  then show ?thesis
    using t by (simp add: shape_of_def shape_at_def nth_append)
qed

lemma shape_of_activation:
  "layer_shape shs (activation cfg t) = shape_at shs t"
  by (simp add: activation_def split: option.splits)

lemma broadcast_dim_same [simp]: "broadcast_dim i i = Some i"
  by (simp add: broadcast_dim_def)

lemma level0_shapes:
  assumes "input_shape cfg = (X, Y, Z, C)"
  shows "infer_shapes (level0_head cfg) =
           [Some (X, Y, Z, C), Some (X, Y, Z, nfm cfg), Some (X, Y, Z, nfm cfg),
            (case broadcast_dim (nfm cfg) C of Some c \<Rightarrow> Some (X, Y, Z, c) | None \<Rightarrow> None)]"
proof -
  have "level0_head cfg =
     [] @ [Input (input_shape cfg)] @ [Conv3D (nfm cfg) (5, 5, 5) (1, 1, 1) Same 0] @
       [activation cfg 1] @ [Add [2, 0]]"
    by (simp add: level0_head_def)
  then show ?thesis
    using assms
    by (auto simp: infer_shapes_def shape_of_activation shape_at_def split: option.splits)
qed

lemma encoder_level0:
  "encoder_level cfg 0 0 (None, [], [Input (input_shape cfg)]) =
     Inr (Some (3 + length (down_transition cfg 0 3)), [3],
          level0_head cfg @ down_transition cfg 0 3)"
  by (simp add: encoder_level_layers encoder_layers_def encoder_residual_def Let_def
      nonlin_layers_def level0_head_def down_transition_def conv_kernel_size_def unit_stride_def
      eval_nat_numeral)

lemma get_model_level0:
  assumes "1 \<le> nlevels cfg"
  shows "\<exists>m rest. get_model cfg = Inr m \<and> layers m = level0_head cfg @ rest"
proof -
  from assms obtain x fl g x' new where
    e: "encoder cfg 0 (py_range (nlevels cfg)) (None, [], [Input (input_shape cfg)]) =
          Inr (Some x, fl, g)" and
    m: "get_model cfg =
           Inr \<lparr>inputs = 0, outputs = length g + length new + 7,
                layers = g @ new @ head_layers cfg (length g + length new) (fl ! 0) x'\<rparr>"
    by (rule get_model_run)
  from e have "encoder cfg 0 (map int [1..<nat (nlevels cfg)])
      (Some (3 + length (down_transition cfg 0 3)), [3],
       level0_head cfg @ down_transition cfg 0 3) = Inr (Some x, fl, g)"
    by (simp add: py_range_pos [OF assms] encoder_level0)
  from encoder_entries [OF this] obtain r where
    "g = (level0_head cfg @ down_transition cfg 0 3) @ r"
    by blast
  then have "layers \<lparr>inputs = 0, outputs = length g + length new + 7,
                layers = g @ new @ head_layers cfg (length g + length new) (fl ! 0) x'\<rparr> =
        level0_head cfg @ (down_transition cfg 0 3 @ r @ new @
          head_layers cfg (length g + length new) (fl ! 0) x')"
    by simp
  with m show ?thesis by blast
qed

lemma construct_no_levels: "nlevels cfg \<le> 0 \<Longrightarrow> construct cfg = Inl IndexError"
  by (simp add: construct_def get_model_no_levels)

lemma construct_bad_filters:
  assumes "1 \<le> nlevels cfg" and "nfm cfg \<le> 0"
  shows "construct cfg = Inl ValueError"
proof -
  from get_model_level0 [OF assms(1)] obtain m rest where
    m: "get_model cfg = Inr m" and l: "layers m = level0_head cfg @ rest"
    by blast
  have "\<not> list_all filters_ok (layers m)"
    using assms(2) by (simp add: l level0_head_def)
  then show ?thesis
    by (simp add: construct_def m framework_accepts_def)
qed

lemma construct_nconv: "nconv cfg \<le> 1 \<Longrightarrow> construct (cfg\<lparr>nconv := 1\<rparr>) = construct cfg"
  by (simp add: construct_def get_model_nconv)

section \<open>Claims\<close>

subsection \<open>C1: dropout after the transitions\<close>

text \<open>
  C1 says that \<open>abs(fi - nlevels) < nlevels\<close> holds at every level
  \<open>0 \<le> fi < nlevels\<close>, so that a positive \<open>dropout_out\<close> puts a dropout layer after
  every transition. At \<open>fi = 0\<close> the condition reads \<open>nlevels < nlevels\<close> and fails:
  with one level and \<open>dropout_out = 0.5\<close> the graph has no dropout layer at all.
\<close>

theorem C1_counterexample:
  "(1::int) \<le> 1 \<and> (0::int) \<le> 0 \<and> (0::int) \<le> 1 - 1 \<and> \<not> transition_cond 0 1 \<and>
   get_model ((default_config 1)\<lparr>dropout_out := PyFloat (1/2)\<rparr>) =
     Inr \<lparr>inputs = 0, outputs = 20,
        layers =
          [Input (64, 64, 64, 1), Conv3D 16 (5, 5, 5) (1, 1, 1) Same 0,
           PReLU 1, Add [2, 0], Conv3D 32 (2, 2, 2) (2, 2, 2) Valid 3,
           PReLU 4, Conv3D 32 (5, 5, 5) (1, 1, 1) Same 5, PReLU 6,
           Conv3D 32 (5, 5, 5) (1, 1, 1) Same 7, PReLU 8, Add [9, 5],
           Conv3DTranspose 16 (2, 2, 2) (2, 2, 2) 10, PReLU 11,
           Concatenate (- 1) [3, 12], Conv3D 16 (5, 5, 5) (1, 1, 1) Same 13,
           Conv3D 16 (1, 1, 1) (1, 1, 1) Same 13, Add [14, 15], PReLU 16,
           Conv3D 2 (1, 1, 1) (1, 1, 1) Valid 17, PReLU 18,
           Activation ''softmax'' 19]\<rparr>"
  by code_simp

text \<open>
  C1, as the code has it: for \<open>0 \<le> fi < nlevels\<close> the condition holds exactly when
  \<open>fi \<noteq> 0\<close>. With a non-zero rate \<open>dropout_out\<close>, the nonlinearity that follows the
  down-convolution of encoder level \<open>fi\<close>, and the one that follows the up-convolution of
  decoder level \<open>fi\<close>, contains a dropout layer exactly when \<open>fi \<noteq> 0\<close>.
\<close>

theorem C1_transition_dropout:
  assumes "0 \<le> fi" and "fi < nlevels cfg" and "dropout_out cfg = PyFloat r" and "r \<noteq> 0"
  shows "transition_cond fi (nlevels cfg) = (fi \<noteq> 0) \<and>
    (\<forall>x fl g x' fl' g'. encoder_level cfg inp fi (x, fl, g) = Inr (x', fl', g') \<longrightarrow>
       (\<exists>pre nl. g' = pre @ Conv3D (nfm cfg * 2 ^ nat (fi + 1)) updown_kernel_size updown_stride
                            Valid (length pre - 1) # nl \<and>
          nl = nonlin_layers cfg (Suc (length pre)) (length pre)
                 (if fi = 0 then PyFalse else PyFloat r) (batch_norm cfg) \<and>
          list_ex is_Dropout nl = (fi \<noteq> 0))) \<and>
    (\<forall>x fl g x' fl' g'. decoder_level cfg fi (x, fl, g) = Inr (x', fl', g') \<longrightarrow>
       (\<exists>pre nl. g' = pre @ Conv3DTranspose (nfm cfg * 2 ^ nat fi) updown_kernel_size
                            updown_stride (length pre - 1) # nl \<and>
          nl = nonlin_layers cfg (Suc (length pre)) (length pre)
                 (if fi = 0 then PyFalse else PyFloat r) (batch_norm cfg) \<and>
          list_ex is_Dropout nl = (fi \<noteq> 0)))"
proof -
  have c: "transition_cond fi (nlevels cfg) = (fi \<noteq> 0)"
    using assms(1,2) by (rule transition_cond_range)
  have d: "transition_dropout cfg fi = (if fi = 0 then PyFalse else PyFloat r)"
    by (simp add: transition_dropout_def c assms(3))
  have e: "list_ex is_Dropout (nonlin_layers cfg n t (if fi = 0 then PyFalse else PyFloat r) b)
             = (fi \<noteq> 0)" for n t b
    by (simp add: list_ex_Dropout_nonlin assms(4))
  show ?thesis
  proof (intro conjI allI impI)
    show "transition_cond fi (nlevels cfg) = (fi \<noteq> 0)" by (rule c)
  next
    fix x fl g x' fl' g'
    assume "encoder_level cfg inp fi (x, fl, g) = Inr (x', fl', g')"
    from encoder_level_transition [OF this] obtain pre where
      "g' = pre @ Conv3D (nfm cfg * 2 ^ nat (fi + 1)) updown_kernel_size updown_stride
                Valid (length pre - 1) #
            nonlin_layers cfg (Suc (length pre)) (length pre) (transition_dropout cfg fi)
              (batch_norm cfg)" ..
    then show "\<exists>pre nl. g' = pre @ Conv3D (nfm cfg * 2 ^ nat (fi + 1)) updown_kernel_size
                   updown_stride Valid (length pre - 1) # nl \<and>
          nl = nonlin_layers cfg (Suc (length pre)) (length pre)
                 (if fi = 0 then PyFalse else PyFloat r) (batch_norm cfg) \<and>
          list_ex is_Dropout nl = (fi \<noteq> 0)"
      using e by (simp only: d) blast
  next
    fix x fl g x' fl' g'
    assume "decoder_level cfg fi (x, fl, g) = Inr (x', fl', g')"
    from decoder_level_transition [OF this] obtain pre where
      "g' = pre @ Conv3DTranspose (nfm cfg * 2 ^ nat fi) updown_kernel_size updown_stride
                (length pre - 1) #
            nonlin_layers cfg (Suc (length pre)) (length pre) (transition_dropout cfg fi)
              (batch_norm cfg)" ..
    then show "\<exists>pre nl. g' = pre @ Conv3DTranspose (nfm cfg * 2 ^ nat fi) updown_kernel_size
                   updown_stride (length pre - 1) # nl \<and>
          nl = nonlin_layers cfg (Suc (length pre)) (length pre)
                 (if fi = 0 then PyFalse else PyFloat r) (batch_norm cfg) \<and>
          list_ex is_Dropout nl = (fi \<noteq> 0)"
      using e by (simp only: d) blast
  qed
qed

theorem C1_transition_dropout_witness:
  "(0::int) \<le> 1 \<and>
   1 < nlevels ((default_config 2)\<lparr>dropout_out := PyFloat (1/2)\<rparr>) \<and>
   dropout_out ((default_config 2)\<lparr>dropout_out := PyFloat (1/2)\<rparr>) = PyFloat (1/2) \<and>
   transition_cond 1 (nlevels ((default_config 2)\<lparr>dropout_out := PyFloat (1/2)\<rparr>)) \<and>
   encoder_level ((default_config 2)\<lparr>dropout_out := PyFloat (1/2)\<rparr>) 0 1
       (Some 5, [3],
        [Input (64, 64, 64, 1), Conv3D 16 (5, 5, 5) (1, 1, 1) Same 0, PReLU 1, Add [2, 0],
         Conv3D 32 (2, 2, 2) (2, 2, 2) Valid 3, PReLU 4]) =
     Inr (Some 13, [3, 10],
       [Input (64, 64, 64, 1), Conv3D 16 (5, 5, 5) (1, 1, 1) Same 0, PReLU 1, Add [2, 0],
        Conv3D 32 (2, 2, 2) (2, 2, 2) Valid 3, PReLU 4,
        Conv3D 32 (5, 5, 5) (1, 1, 1) Same 5, PReLU 6, Conv3D 32 (5, 5, 5) (1, 1, 1) Same 7,
        PReLU 8, Add [9, 5], Conv3D 64 (2, 2, 2) (2, 2, 2) Valid 10, PReLU 11,
        Dropout (1/2) 12])"
proof -
  have "transition_cond 1 (nlevels ((default_config 2)\<lparr>dropout_out := PyFloat (1/2)\<rparr>))"
    using C1_transition_dropout [of 1 "(default_config 2)\<lparr>dropout_out := PyFloat (1/2)\<rparr>" "1/2" 0]
    by (simp add: default_config_def)
  moreover have "encoder_level ((default_config 2)\<lparr>dropout_out := PyFloat (1/2)\<rparr>) 0 1
       (Some 5, [3],
        [Input (64, 64, 64, 1), Conv3D 16 (5, 5, 5) (1, 1, 1) Same 0, PReLU 1, Add [2, 0],
         Conv3D 32 (2, 2, 2) (2, 2, 2) Valid 3, PReLU 4]) =
     Inr (Some 13, [3, 10],
       [Input (64, 64, 64, 1), Conv3D 16 (5, 5, 5) (1, 1, 1) Same 0, PReLU 1, Add [2, 0],
        Conv3D 32 (2, 2, 2) (2, 2, 2) Valid 3, PReLU 4,
        Conv3D 32 (5, 5, 5) (1, 1, 1) Same 5, PReLU 6, Conv3D 32 (5, 5, 5) (1, 1, 1) Same 7,
        PReLU 8, Add [9, 5], Conv3D 64 (2, 2, 2) (2, 2, 2) Valid 10, PReLU 11,
        Dropout (1/2) 12])"
    by code_simp
  ultimately show ?thesis
    by (simp add: default_config_def)
qed

subsection \<open>C2: batch normalisation after the transitions\<close>

text \<open>
  C2 says that the nonlinearity after a transition never normalises, also when
  \<open>batch_norm=True\<close>. The two call sites leave \<open>batch_norm\<close> out, and the default of
  that argument is the flag of \<open>get_model\<close>: with one level and \<open>batch_norm=True\<close> a
  \<open>BatchNormalization\<close> layer follows the down-convolution (node 4) and the
  up-convolution (node 12).
\<close>

theorem C2_counterexample:
  "batch_norm ((default_config 1)\<lparr>batch_norm := True\<rparr>) \<and>
   get_model ((default_config 1)\<lparr>batch_norm := True\<rparr>) =
     Inr \<lparr>inputs = 0, outputs = 23,
        layers =
          [Input (64, 64, 64, 1), Conv3D 16 (5, 5, 5) (1, 1, 1) Same 0,
           PReLU 1, Add [2, 0], Conv3D 32 (2, 2, 2) (2, 2, 2) Valid 3,
           BatchNormalization False 4, PReLU 5,
           Conv3D 32 (5, 5, 5) (1, 1, 1) Same 6, PReLU 7,
           Conv3D 32 (5, 5, 5) (1, 1, 1) Same 8, BatchNormalization False 9,
           PReLU 10, Add [11, 6], Conv3DTranspose 16 (2, 2, 2) (2, 2, 2) 12,
           BatchNormalization False 13, PReLU 14, Concatenate (- 1) [3, 15],
           Conv3D 16 (5, 5, 5) (1, 1, 1) Same 16,
           Conv3D 16 (1, 1, 1) (1, 1, 1) Same 16, Add [17, 18], PReLU 19,
           Conv3D 2 (1, 1, 1) (1, 1, 1) Valid 20, PReLU 21,
           Activation ''softmax'' 22]\<rparr>"
  by code_simp

text \<open>
  C2, as the code has it: the nonlinearity that follows the down-convolution of an encoder
  level, and the one that follows the up-convolution of a decoder level, starts with a
  \<open>BatchNormalization\<close> layer reading the transition's output exactly when the
  \<open>batch_norm\<close> flag of the configuration is set.
\<close>

theorem C2_transition_batch_norm:
  "(\<forall>x fl g x' fl' g'. encoder_level cfg inp fi (x, fl, g) = Inr (x', fl', g') \<longrightarrow>
       (\<exists>pre nl. g' = pre @ Conv3D (nfm cfg * 2 ^ nat (fi + 1)) updown_kernel_size updown_stride
                            Valid (length pre - 1) # nl \<and>
          nl = nonlin_layers cfg (Suc (length pre)) (length pre) (transition_dropout cfg fi)
                 (batch_norm cfg) \<and>
          (hd nl = BatchNormalization False (length pre)) = batch_norm cfg \<and>
          list_ex is_BatchNormalization nl = batch_norm cfg)) \<and>
   (\<forall>x fl g x' fl' g'. decoder_level cfg fi (x, fl, g) = Inr (x', fl', g') \<longrightarrow>
       (\<exists>pre nl. g' = pre @ Conv3DTranspose (nfm cfg * 2 ^ nat fi) updown_kernel_size
                            updown_stride (length pre - 1) # nl \<and>
          nl = nonlin_layers cfg (Suc (length pre)) (length pre) (transition_dropout cfg fi)
                 (batch_norm cfg) \<and>
          (hd nl = BatchNormalization False (length pre)) = batch_norm cfg \<and>
          list_ex is_BatchNormalization nl = batch_norm cfg))"
proof (intro conjI allI impI)
  fix x fl g x' fl' g'
  assume "encoder_level cfg inp fi (x, fl, g) = Inr (x', fl', g')"
  from encoder_level_transition [OF this] obtain pre where g':
    "g' = pre @ Conv3D (nfm cfg * 2 ^ nat (fi + 1)) updown_kernel_size updown_stride
              Valid (length pre - 1) #
          nonlin_layers cfg (Suc (length pre)) (length pre) (transition_dropout cfg fi)
            (batch_norm cfg)" ..
  show "\<exists>pre nl. g' = pre @ Conv3D (nfm cfg * 2 ^ nat (fi + 1)) updown_kernel_size
                 updown_stride Valid (length pre - 1) # nl \<and>
        nl = nonlin_layers cfg (Suc (length pre)) (length pre) (transition_dropout cfg fi)
               (batch_norm cfg) \<and>
        (hd nl = BatchNormalization False (length pre)) = batch_norm cfg \<and>
        list_ex is_BatchNormalization nl = batch_norm cfg"
    by (rule exI [of _ pre], rule exI [of _ "nonlin_layers cfg (Suc (length pre)) (length pre)
          (transition_dropout cfg fi) (batch_norm cfg)"])
       (simp add: g' hd_nonlin_bn list_ex_bn_nonlin)
next
  fix x fl g x' fl' g'
  assume "decoder_level cfg fi (x, fl, g) = Inr (x', fl', g')"
  from decoder_level_transition [OF this] obtain pre where g':
    "g' = pre @ Conv3DTranspose (nfm cfg * 2 ^ nat fi) updown_kernel_size updown_stride
              (length pre - 1) #
          nonlin_layers cfg (Suc (length pre)) (length pre) (transition_dropout cfg fi)
            (batch_norm cfg)" ..
  show "\<exists>pre nl. g' = pre @ Conv3DTranspose (nfm cfg * 2 ^ nat fi) updown_kernel_size
                 updown_stride (length pre - 1) # nl \<and>
        nl = nonlin_layers cfg (Suc (length pre)) (length pre) (transition_dropout cfg fi)
               (batch_norm cfg) \<and>
        (hd nl = BatchNormalization False (length pre)) = batch_norm cfg \<and>
        list_ex is_BatchNormalization nl = batch_norm cfg"
    by (rule exI [of _ pre], rule exI [of _ "nonlin_layers cfg (Suc (length pre)) (length pre)
          (transition_dropout cfg fi) (batch_norm cfg)"])
       (simp add: g' hd_nonlin_bn list_ex_bn_nonlin)
qed

theorem C2_transition_batch_norm_witness:
  "encoder_level ((default_config 1)\<lparr>batch_norm := True\<rparr>) 0 0 (None, [], [Input (64, 64, 64, 1)]) =
     Inr (Some 6, [3],
       [Input (64, 64, 64, 1), Conv3D 16 (5, 5, 5) (1, 1, 1) Same 0, PReLU 1, Add [2, 0],
        Conv3D 32 (2, 2, 2) (2, 2, 2) Valid 3, BatchNormalization False 4, PReLU 5]) \<and>
   (\<exists>pre nl.
       [Input (64, 64, 64, 1), Conv3D 16 (5, 5, 5) (1, 1, 1) Same 0, PReLU 1, Add [2, 0],
        Conv3D 32 (2, 2, 2) (2, 2, 2) Valid 3, BatchNormalization False 4, PReLU 5] =
         pre @ Conv3D 32 (2, 2, 2) (2, 2, 2) Valid (length pre - 1) # nl \<and>
       hd nl = BatchNormalization False (length pre))"
proof -
  have e: "encoder_level ((default_config 1)\<lparr>batch_norm := True\<rparr>) 0 0
      (None, [], [Input (64, 64, 64, 1)]) =
     Inr (Some 6, [3],
       [Input (64, 64, 64, 1), Conv3D 16 (5, 5, 5) (1, 1, 1) Same 0, PReLU 1, Add [2, 0],
        Conv3D 32 (2, 2, 2) (2, 2, 2) Valid 3, BatchNormalization False 4, PReLU 5])"
    by code_simp
  have n: "nfm ((default_config 1)\<lparr>batch_norm := True\<rparr>) * 2 ^ nat (0 + 1) = 32"
    by (simp add: default_config_def)
  note t = C2_transition_batch_norm [of "(default_config 1)\<lparr>batch_norm := True\<rparr>" 0 0,
      THEN conjunct1, rule_format, OF e]
  then obtain pre nl where
    p: "[Input (64, 64, 64, 1), Conv3D 16 (5, 5, 5) (1, 1, 1) Same 0, PReLU 1, Add [2, 0],
        Conv3D 32 (2, 2, 2) (2, 2, 2) Valid 3, BatchNormalization False 4, PReLU 5] =
         pre @ Conv3D 32 updown_kernel_size updown_stride Valid (length pre - 1) # nl"
    and h: "(hd nl = BatchNormalization False (length pre)) =
            batch_norm ((default_config 1)\<lparr>batch_norm := True\<rparr>)"
    unfolding n by (elim exE conjE)
  from h have h': "hd nl = BatchNormalization False (length pre)"
    by simp
  have "\<exists>pre nl.
       [Input (64, 64, 64, 1), Conv3D 16 (5, 5, 5) (1, 1, 1) Same 0, PReLU 1, Add [2, 0],
        Conv3D 32 (2, 2, 2) (2, 2, 2) Valid 3, BatchNormalization False 4, PReLU 5] =
         pre @ Conv3D 32 (2, 2, 2) (2, 2, 2) Valid (length pre - 1) # nl \<and>
       hd nl = BatchNormalization False (length pre)"
    using p h' unfolding updown_kernel_size_def updown_stride_def
    by (intro exI [of _ pre] exI [of _ nl] conjI)
  with e show ?thesis by (intro conjI)
qed

subsection \<open>C3: the forward-feature buffer\<close>

text \<open>
  C3: for \<open>nlevels \<ge> 1\<close> the encoder loop leaves exactly \<open>nlevels\<close> entries in
  \<open>forward_list\<close>. Entry \<open>i\<close> is the residual sum of encoder level \<open>i\<close>, and the node
  created right after it is the down-convolution of that level reading it; the entries are
  in ascending order of creation, hence pairwise different. The encoder reads none of
  them. Decoder level \<open>nlevels-1\<close> reads none, decoder level \<open>fi < nlevels-1\<close> reads entry
  \<open>fi+1\<close>, so that the decoder loop reads entries \<open>nlevels-1, ..., 1\<close> in this order, and
  the fusion stage reads entry 0: the concatenations of the finished graph read the buffer
  back to front, each entry once.
\<close>

theorem C3_forward_buffer:
  assumes "1 \<le> nlevels cfg"
  shows "\<exists>x fl g x' g' m.
     encoder cfg 0 (py_range (nlevels cfg)) (None, [], [Input (input_shape cfg)]) =
       Inr (x, fl, g) \<and>
     length fl = nat (nlevels cfg) \<and>
     (\<forall>i<nat (nlevels cfg). saved_at cfg g (int i) (fl ! i)) \<and>
     sorted_wrt (<) fl \<and> distinct fl \<and> skip_reads g = [] \<and>
     decoder cfg (rev (py_range (nlevels cfg))) (x, fl, g) = Inr (x', fl, g') \<and>
     skip_reads g' = rev (tl fl) \<and>
     (\<forall>fi t h. 0 \<le> fi \<and> fi < nlevels cfg - 1 \<longrightarrow>
        (\<exists>y h'. decoder_level cfg fi (Some t, fl, h) = Inr (y, fl, h') \<and>
                 skip_reads h' = skip_reads h @ [fl ! nat (fi + 1)])) \<and>
     (\<forall>t h. \<exists>y h'. decoder_level cfg (nlevels cfg - 1) (Some t, fl, h) = Inr (y, fl, h') \<and>
                 skip_reads h' = skip_reads h) \<and>
     get_model cfg = Inr m \<and> skip_reads (layers m) = rev fl"
proof -
  from assms obtain x fl g x' new where
    e: "encoder cfg 0 (py_range (nlevels cfg)) (None, [], [Input (input_shape cfg)]) =
          Inr (Some x, fl, g)" and
    lf: "length fl = nat (nlevels cfg)" and
    sv: "list_all2 (saved_at cfg g) (py_range (nlevels cfg)) fl" and
    so: "sorted_wrt (<) fl" and
    sg: "skip_reads g = []" and
    d: "decoder cfg (rev (py_range (nlevels cfg))) (Some x, fl, g) = Inr (Some x', fl, g @ new)" and
    sn: "skip_reads new = rev (tl fl)" and
    m: "get_model cfg =
           Inr \<lparr>inputs = 0, outputs = length g + length new + 7,
                layers = g @ new @ head_layers cfg (length g + length new) (fl ! 0) x'\<rparr>"
    by (rule get_model_run)
  define m where "m = \<lparr>inputs = 0, outputs = length g + length new + 7,
                layers = g @ new @ head_layers cfg (length g + length new) (fl ! 0) x'\<rparr>"
  have ne: "fl \<noteq> []"
    using lf assms by auto
  have sv': "\<forall>i<nat (nlevels cfg). saved_at cfg g (int i) (fl ! i)"
  proof (intro allI impI)
    fix i assume i: "i < nat (nlevels cfg)"
    then have "saved_at cfg g (py_range (nlevels cfg) ! i) (fl ! i)"
      using sv by (simp add: list_all2_conv_all_nth py_range_def)
    then show "saved_at cfg g (int i) (fl ! i)"
      using i by (simp add: py_range_def)
  qed
  have di: "distinct fl"
    using so by (simp add: strict_sorted_iff)
  have r1: "\<exists>y h'. decoder_level cfg fi (Some t, fl, h) = Inr (y, fl, h') \<and>
                 skip_reads h' = skip_reads h @ [fl ! nat (fi + 1)]"
    if "0 \<le> fi \<and> fi < nlevels cfg - 1" for fi t h
  proof -
    from that have "skip_ok cfg fl fi"
      using lf by (simp add: skip_ok_def)
    from decoder_level_reads [OF this, of t h] that show ?thesis
      by simp
  qed
  have r2: "\<exists>y h'. decoder_level cfg (nlevels cfg - 1) (Some t, fl, h) = Inr (y, fl, h') \<and>
                 skip_reads h' = skip_reads h" for t h
  proof -
    have "skip_ok cfg fl (nlevels cfg - 1)"
      by (simp add: skip_ok_def)
    from decoder_level_reads [OF this, of t h] show ?thesis
      by simp
  qed
  have sm: "skip_reads (layers m) = rev fl"
  proof -
    have "skip_reads (layers m) = rev (tl fl) @ [hd fl]"
      using ne by (simp add: m_def sg sn observe_head_layers hd_conv_nth)
    also have "\<dots> = rev (hd fl # tl fl)" by simp
    also have "\<dots> = rev fl" using ne by simp
    finally show ?thesis .
  qed
  show ?thesis
    apply (rule exI [of _ "Some x"], rule exI [of _ fl], rule exI [of _ g])
    apply (rule exI [of _ "Some x'"], rule exI [of _ "g @ new"], rule exI [of _ m])
    using e lf sv' so di sg d sn r1 r2 sm m
    apply (simp only: m_def [symmetric] skip_reads_append)
    apply simp
    done
qed

theorem C3_forward_buffer_witness:
  "1 \<le> nlevels (default_config 2) \<and>
   encoder (default_config 2) 0 (py_range (nlevels (default_config 2)))
       (None, [], [Input (input_shape (default_config 2))]) =
     Inr (Some 12, [3, 10],
       [Input (64, 64, 64, 1), Conv3D 16 (5, 5, 5) (1, 1, 1) Same 0, PReLU 1, Add [2, 0],
        Conv3D 32 (2, 2, 2) (2, 2, 2) Valid 3, PReLU 4,
        Conv3D 32 (5, 5, 5) (1, 1, 1) Same 5, PReLU 6, Conv3D 32 (5, 5, 5) (1, 1, 1) Same 7,
        PReLU 8, Add [9, 5], Conv3D 64 (2, 2, 2) (2, 2, 2) Valid 10, PReLU 11]) \<and>
   (\<exists>m. get_model (default_config 2) = Inr m \<and> skip_reads (layers m) = [10, 3])"
proof -
  have n: "1 \<le> nlevels (default_config 2)"
    by (simp add: default_config_def)
  have e: "encoder (default_config 2) 0 (py_range (nlevels (default_config 2)))
       (None, [], [Input (input_shape (default_config 2))]) =
     Inr (Some 12, [3, 10],
       [Input (64, 64, 64, 1), Conv3D 16 (5, 5, 5) (1, 1, 1) Same 0, PReLU 1, Add [2, 0],
        Conv3D 32 (2, 2, 2) (2, 2, 2) Valid 3, PReLU 4,
        Conv3D 32 (5, 5, 5) (1, 1, 1) Same 5, PReLU 6, Conv3D 32 (5, 5, 5) (1, 1, 1) Same 7,
        PReLU 8, Add [9, 5], Conv3D 64 (2, 2, 2) (2, 2, 2) Valid 10, PReLU 11])"
    by code_simp
  from C3_forward_buffer [OF n] obtain x fl g m where
    "encoder (default_config 2) 0 (py_range (nlevels (default_config 2)))
       (None, [], [Input (input_shape (default_config 2))]) = Inr (x, fl, g)" and
    "get_model (default_config 2) = Inr m" and "skip_reads (layers m) = rev fl"
    by (elim exE conjE)
  with e have "get_model (default_config 2) = Inr m \<and> skip_reads (layers m) = [10, 3]"
    by simp
  with n e show ?thesis
    by (intro conjI exI [of _ m]) simp_all
qed

subsection \<open>C4: the skip connection of the decoder\<close>

text \<open>
  C4: decoder level \<open>nlevels-1\<close> creates no concatenation: its first convolution reads the
  current tensor \<open>t\<close> itself. A decoder level \<open>fi\<close> other than \<open>nlevels-1\<close> (with entry
  \<open>fi+1\<close> present in the buffer) first concatenates entry \<open>fi+1\<close> with \<open>t\<close> on the last
  axis, and its first convolution reads that concatenation. In both cases the only sum of
  the level adds the output of the residual convolutions to \<open>t\<close>, the tensor as it was
  before the concatenation.
\<close>

theorem C4_decoder_skip:
  "(fi = nlevels cfg - 1 \<longrightarrow>
     (\<exists>x' res tr.
        decoder_level cfg fi (Some t, fl, g) =
          Inr (x', fl, g @ res @ Add [length g + length res - 1, t] # tr) \<and>
        res = residual_layers cfg (nfm cfg * 2 ^ nat (fi + 1)) (length g) t \<and>
        hd res = Conv3D (nfm cfg * 2 ^ nat (fi + 1)) (5, 5, 5) (1, 1, 1) Same t \<and>
        \<not> list_ex is_Concatenate (res @ Add [length g + length res - 1, t] # tr) \<and>
        \<not> list_ex is_Add res \<and> \<not> list_ex is_Add tr)) \<and>
   (fi \<noteq> nlevels cfg - 1 \<and> 0 \<le> fi \<and> fi + 1 < int (length fl) \<longrightarrow>
     (\<exists>x' res tr.
        decoder_level cfg fi (Some t, fl, g) =
          Inr (x', fl, g @ Concatenate (- 1) [fl ! nat (fi + 1), t] # res @
                 Add [length g + length res, t] # tr) \<and>
        res = residual_layers cfg (nfm cfg * 2 ^ nat (fi + 1)) (Suc (length g)) (length g) \<and>
        hd res = Conv3D (nfm cfg * 2 ^ nat (fi + 1)) (5, 5, 5) (1, 1, 1) Same (length g) \<and>
        \<not> list_ex is_Concatenate (res @ Add [length g + length res, t] # tr) \<and>
        \<not> list_ex is_Add res \<and> \<not> list_ex is_Add tr))"
proof (intro conjI impI)
  assume a: "fi = nlevels cfg - 1"
  define res where "res = residual_layers cfg (nfm cfg * 2 ^ nat (fi + 1)) (length g) t"
  define tr where "tr = up_transition cfg fi (length g + length res)"
  show "\<exists>x' res tr.
        decoder_level cfg fi (Some t, fl, g) =
          Inr (x', fl, g @ res @ Add [length g + length res - 1, t] # tr) \<and>
        res = residual_layers cfg (nfm cfg * 2 ^ nat (fi + 1)) (length g) t \<and>
        hd res = Conv3D (nfm cfg * 2 ^ nat (fi + 1)) (5, 5, 5) (1, 1, 1) Same t \<and>
        \<not> list_ex is_Concatenate (res @ Add [length g + length res - 1, t] # tr) \<and>
        \<not> list_ex is_Add res \<and> \<not> list_ex is_Add tr"
    apply (rule exI [of _ "Some (length g + length res + length tr)"])
    apply (rule exI [of _ res], rule exI [of _ tr])
    using decoder_level_block_deepest [OF a, of t fl g]
    apply (simp add: res_def [symmetric] tr_def [symmetric])
    apply (simp add: res_def tr_def hd_residual_layers conv_kernel_size_def unit_stride_def)
    done
next
  assume a: "fi \<noteq> nlevels cfg - 1 \<and> 0 \<le> fi \<and> fi + 1 < int (length fl)"
  define res where
    "res = residual_layers cfg (nfm cfg * 2 ^ nat (fi + 1)) (Suc (length g)) (length g)"
  define tr where "tr = up_transition cfg fi (Suc (length g) + length res)"
  from a have a1: "fi \<noteq> nlevels cfg - 1" and a2: "0 \<le> fi" and a3: "fi + 1 < int (length fl)"
    by simp_all
  show "\<exists>x' res tr.
        decoder_level cfg fi (Some t, fl, g) =
          Inr (x', fl, g @ Concatenate (- 1) [fl ! nat (fi + 1), t] # res @
                 Add [length g + length res, t] # tr) \<and>
        res = residual_layers cfg (nfm cfg * 2 ^ nat (fi + 1)) (Suc (length g)) (length g) \<and>
        hd res = Conv3D (nfm cfg * 2 ^ nat (fi + 1)) (5, 5, 5) (1, 1, 1) Same (length g) \<and>
        \<not> list_ex is_Concatenate (res @ Add [length g + length res, t] # tr) \<and>
        \<not> list_ex is_Add res \<and> \<not> list_ex is_Add tr"
    apply (rule exI [of _ "Some (Suc (length g) + length res + length tr)"])
    apply (rule exI [of _ res], rule exI [of _ tr])
    using decoder_level_block_skip [OF a1 a2 a3, of t g]
    apply (simp add: res_def [symmetric] tr_def [symmetric])
    apply (simp add: res_def tr_def hd_residual_layers conv_kernel_size_def unit_stride_def)
    done
qed

theorem C4_decoder_skip_witness:
  "(0::int) = nlevels (default_config 1) - 1 \<and>
   (\<exists>x' res tr.
        decoder_level (default_config 1) (0::int) (Some 5, [3], level0_graph) =
          Inr (x', [3], level0_graph @ res @ Add [length level0_graph + length res - 1, 5] # tr) \<and>
        res = residual_layers (default_config 1) (nfm (default_config 1) * 2 ^ nat ((0::int) + 1)) (length level0_graph) 5 \<and>
        hd res = Conv3D (nfm (default_config 1) * 2 ^ nat ((0::int) + 1)) (5, 5, 5) (1, 1, 1) Same 5 \<and>
        \<not> list_ex is_Concatenate (res @ Add [length level0_graph + length res - 1, 5] # tr) \<and>
        \<not> list_ex is_Add res \<and> \<not> list_ex is_Add tr) \<and>
   decoder_level (default_config 1) 0 (Some 5, [3], level0_graph) =
     Inr (Some 12, [3],
         [Input (64, 64, 64, 1), Conv3D 16 (5, 5, 5) (1, 1, 1) Same 0, PReLU 1,
          Add [2, 0], Conv3D 32 (2, 2, 2) (2, 2, 2) Valid 3, PReLU 4,
          Conv3D 32 (5, 5, 5) (1, 1, 1) Same 5, PReLU 6,
          Conv3D 32 (5, 5, 5) (1, 1, 1) Same 7, PReLU 8, Add [9, 5],
          Conv3DTranspose 16 (2, 2, 2) (2, 2, 2) 10, PReLU 11]) \<and>
   (0::int) \<noteq> nlevels (default_config 2) - 1 \<and> 0 \<le> (0::int) \<and> (0::int) + 1 < int (length [3, 3]) \<and>
   (\<exists>x' res tr.
        decoder_level (default_config 2) (0::int) (Some 5, [3, 3], level0_graph) =
          Inr (x', [3, 3], level0_graph @ Concatenate (- 1) [[3, 3] ! nat ((0::int) + 1), 5] # res @
                 Add [length level0_graph + length res, 5] # tr) \<and>
        res = residual_layers (default_config 2) (nfm (default_config 2) * 2 ^ nat ((0::int) + 1)) (Suc (length level0_graph)) (length level0_graph) \<and>
        hd res = Conv3D (nfm (default_config 2) * 2 ^ nat ((0::int) + 1)) (5, 5, 5) (1, 1, 1) Same (length level0_graph) \<and>
        \<not> list_ex is_Concatenate (res @ Add [length level0_graph + length res, 5] # tr) \<and>
        \<not> list_ex is_Add res \<and> \<not> list_ex is_Add tr) \<and>
   decoder_level (default_config 2) 0 (Some 5, [3, 3], level0_graph) =
     Inr (Some 13, [3, 3],
         [Input (64, 64, 64, 1), Conv3D 16 (5, 5, 5) (1, 1, 1) Same 0, PReLU 1,
          Add [2, 0], Conv3D 32 (2, 2, 2) (2, 2, 2) Valid 3, PReLU 4,
          Concatenate (- 1) [3, 5], Conv3D 32 (5, 5, 5) (1, 1, 1) Same 6,
          PReLU 7, Conv3D 32 (5, 5, 5) (1, 1, 1) Same 8, PReLU 9, Add [10, 5],
          Conv3DTranspose 16 (2, 2, 2) (2, 2, 2) 11, PReLU 12])"
proof -
  have h1: "(0::int) = nlevels (default_config 1) - 1"
    by (simp add: default_config_def)
  note t1 = C4_decoder_skip [where fi = "(0::int)" and cfg = "(default_config 1)" and t = "5" and fl = "[3]" and g = "level0_graph", THEN conjunct1, THEN mp, OF h1]
  have e1: "decoder_level (default_config 1) 0 (Some 5, [3], level0_graph) =
     Inr (Some 12, [3],
         [Input (64, 64, 64, 1), Conv3D 16 (5, 5, 5) (1, 1, 1) Same 0, PReLU 1,
          Add [2, 0], Conv3D 32 (2, 2, 2) (2, 2, 2) Valid 3, PReLU 4,
          Conv3D 32 (5, 5, 5) (1, 1, 1) Same 5, PReLU 6,
          Conv3D 32 (5, 5, 5) (1, 1, 1) Same 7, PReLU 8, Add [9, 5],
          Conv3DTranspose 16 (2, 2, 2) (2, 2, 2) 10, PReLU 11])"
    by code_simp
  have h2: "(0::int) \<noteq> nlevels (default_config 2) - 1 \<and> 0 \<le> (0::int) \<and> (0::int) + 1 < int (length [3, 3])"
    by (simp add: default_config_def)
  note t2 = C4_decoder_skip [where fi = "(0::int)" and cfg = "(default_config 2)" and t = "5" and fl = "[3, 3]" and g = "level0_graph", THEN conjunct2, THEN mp, OF h2]
  have e2: "decoder_level (default_config 2) 0 (Some 5, [3, 3], level0_graph) =
     Inr (Some 13, [3, 3],
         [Input (64, 64, 64, 1), Conv3D 16 (5, 5, 5) (1, 1, 1) Same 0, PReLU 1,
          Add [2, 0], Conv3D 32 (2, 2, 2) (2, 2, 2) Valid 3, PReLU 4,
          Concatenate (- 1) [3, 5], Conv3D 32 (5, 5, 5) (1, 1, 1) Same 6,
          PReLU 7, Conv3D 32 (5, 5, 5) (1, 1, 1) Same 8, PReLU 9, Add [10, 5],
          Conv3DTranspose 16 (2, 2, 2) (2, 2, 2) 11, PReLU 12])"
    by code_simp
  from h1 t1 e1 h2 t2 e2 show ?thesis
    by (intro conjI) (elim conjE, assumption)+
qed

subsection \<open>C5: the transitions and their channel counts\<close>



subsection \<open>C6: normalisation and dropout inside a residual block\<close>

text \<open>
  C6: at an encoder level \<open>fi \<noteq> 0\<close> and at every decoder level, the layers between the
  level's input (or its concatenation) and its residual sum are exactly the residual block
  of the specification: the first nonlinearity without batch normalisation, batch
  normalisation only in the last additional round and only under the flag, dropout at
  \<open>dropout_in\<close> in every round. Counted: one normalisation layer when the flag is set and
  \<open>nconv \<ge> 2\<close>, none otherwise; one dropout layer per convolution when \<open>dropout_in\<close> is
  a non-zero rate.
\<close>

theorem C6_residual_block:
  "(fi \<noteq> 0 \<longrightarrow>
     (\<exists>x' tr. encoder_level cfg inp fi (Some t, fl, g) =
        Inr (x', fl @ [length g + length (spec_residual_block cfg (nfm cfg * 2 ^ nat fi) (length g) t)],
             g @ spec_residual_block cfg (nfm cfg * 2 ^ nat fi) (length g) t @
               Add [length g + length (spec_residual_block cfg (nfm cfg * 2 ^ nat fi) (length g) t) - 1,
                    t] # tr))) \<and>
   (fi = nlevels cfg - 1 \<longrightarrow>
     (\<exists>x' tr. decoder_level cfg fi (Some t, fl, g) =
        Inr (x', fl,
             g @ spec_residual_block cfg (nfm cfg * 2 ^ nat (fi + 1)) (length g) t @
               Add [length g +
                    length (spec_residual_block cfg (nfm cfg * 2 ^ nat (fi + 1)) (length g) t) - 1,
                    t] # tr))) \<and>
   (fi \<noteq> nlevels cfg - 1 \<and> 0 \<le> fi \<and> fi + 1 < int (length fl) \<longrightarrow>
     (\<exists>x' tr. decoder_level cfg fi (Some t, fl, g) =
        Inr (x', fl,
             g @ Concatenate (- 1) [fl ! nat (fi + 1), t] #
               spec_residual_block cfg (nfm cfg * 2 ^ nat (fi + 1)) (Suc (length g)) (length g) @
               Add [length g +
                    length (spec_residual_block cfg (nfm cfg * 2 ^ nat (fi + 1))
                      (Suc (length g)) (length g)), t] # tr))) \<and>
   length (filter is_BatchNormalization (spec_residual_block cfg F n r)) =
     (if batch_norm cfg \<and> 2 \<le> nconv cfg then 1 else 0) \<and>
   length (filter is_Dropout (spec_residual_block cfg F n r)) =
     (if truthy (dropout_in cfg) then Suc (nat (nconv cfg - 1)) else 0) \<and>
   conv_filters (spec_residual_block cfg F n r) = replicate (Suc (nat (nconv cfg - 1))) F"
proof (intro conjI impI)
  assume a: "fi \<noteq> 0"
  show "\<exists>x' tr. encoder_level cfg inp fi (Some t, fl, g) =
        Inr (x', fl @ [length g + length (spec_residual_block cfg (nfm cfg * 2 ^ nat fi) (length g) t)],
             g @ spec_residual_block cfg (nfm cfg * 2 ^ nat fi) (length g) t @
               Add [length g + length (spec_residual_block cfg (nfm cfg * 2 ^ nat fi) (length g) t) - 1,
                    t] # tr)"
    using encoder_level_block [OF a, of cfg inp t fl g]
    unfolding residual_layers_spec by (intro exI)
next
  assume a: "fi = nlevels cfg - 1"
  show "\<exists>x' tr. decoder_level cfg fi (Some t, fl, g) =
        Inr (x', fl,
             g @ spec_residual_block cfg (nfm cfg * 2 ^ nat (fi + 1)) (length g) t @
               Add [length g +
                    length (spec_residual_block cfg (nfm cfg * 2 ^ nat (fi + 1)) (length g) t) - 1,
                    t] # tr)"
    using decoder_level_block_deepest [OF a, of t fl g]
    unfolding residual_layers_spec by (intro exI)
next
  assume a: "fi \<noteq> nlevels cfg - 1 \<and> 0 \<le> fi \<and> fi + 1 < int (length fl)"
  then have a1: "fi \<noteq> nlevels cfg - 1" and a2: "0 \<le> fi" and a3: "fi + 1 < int (length fl)"
    by simp_all
  show "\<exists>x' tr. decoder_level cfg fi (Some t, fl, g) =
        Inr (x', fl,
             g @ Concatenate (- 1) [fl ! nat (fi + 1), t] #
               spec_residual_block cfg (nfm cfg * 2 ^ nat (fi + 1)) (Suc (length g)) (length g) @
               Add [length g +
                    length (spec_residual_block cfg (nfm cfg * 2 ^ nat (fi + 1))
                      (Suc (length g)) (length g)), t] # tr)"
    using decoder_level_block_skip [OF a1 a2 a3, of t g]
    unfolding residual_layers_spec by (intro exI)
next
  show "length (filter is_BatchNormalization (spec_residual_block cfg F n r)) =
     (if batch_norm cfg \<and> 2 \<le> nconv cfg then 1 else 0)"
    by (rule count_spec_block)
  show "length (filter is_Dropout (spec_residual_block cfg F n r)) =
     (if truthy (dropout_in cfg) then Suc (nat (nconv cfg - 1)) else 0)"
    by (rule count_spec_block)
  show "conv_filters (spec_residual_block cfg F n r) = replicate (Suc (nat (nconv cfg - 1))) F"
    using conv_filters_residual [of cfg F n r] by (simp only: residual_layers_spec)
qed

theorem C6_residual_block_witness:
  "(1::int) \<noteq> 0 \<and>
   (\<exists>x' tr. encoder_level ((default_config 2)\<lparr>nconv := 3, dropout_in := PyFloat (1/4), batch_norm := True\<rparr>) 0 (1::int) (Some 5, [3], level0_graph) =
        Inr (x', [3] @ [length level0_graph + length (spec_residual_block ((default_config 2)\<lparr>nconv := 3, dropout_in := PyFloat (1/4), batch_norm := True\<rparr>) (nfm ((default_config 2)\<lparr>nconv := 3, dropout_in := PyFloat (1/4), batch_norm := True\<rparr>) * 2 ^ nat (1::int)) (length level0_graph) 5)],
             level0_graph @ spec_residual_block ((default_config 2)\<lparr>nconv := 3, dropout_in := PyFloat (1/4), batch_norm := True\<rparr>) (nfm ((default_config 2)\<lparr>nconv := 3, dropout_in := PyFloat (1/4), batch_norm := True\<rparr>) * 2 ^ nat (1::int)) (length level0_graph) 5 @
               Add [length level0_graph + length (spec_residual_block ((default_config 2)\<lparr>nconv := 3, dropout_in := PyFloat (1/4), batch_norm := True\<rparr>) (nfm ((default_config 2)\<lparr>nconv := 3, dropout_in := PyFloat (1/4), batch_norm := True\<rparr>) * 2 ^ nat (1::int)) (length level0_graph) 5) - 1,
                    5] # tr)) \<and>
   encoder_level ((default_config 2)\<lparr>nconv := 3, dropout_in := PyFloat (1/4), batch_norm := True\<rparr>) 0 1 (Some 5, [3], level0_graph) =
     Inr (Some 19, [3, 16],
         [Input (64, 64, 64, 1), Conv3D 16 (5, 5, 5) (1, 1, 1) Same 0, PReLU 1,
          Add [2, 0], Conv3D 32 (2, 2, 2) (2, 2, 2) Valid 3, PReLU 4,
          Conv3D 32 (5, 5, 5) (1, 1, 1) Same 5, PReLU 6, Dropout (1 / 4) 7,
          Conv3D 32 (5, 5, 5) (1, 1, 1) Same 8, PReLU 9, Dropout (1 / 4) 10,
          Conv3D 32 (5, 5, 5) (1, 1, 1) Same 11, BatchNormalization False 12,
          PReLU 13, Dropout (1 / 4) 14, Add [15, 5],
          Conv3D 64 (2, 2, 2) (2, 2, 2) Valid 16, BatchNormalization False 17,
          PReLU 18]) \<and>
   (1::int) = nlevels ((default_config 2)\<lparr>nconv := 3, dropout_in := PyFloat (1/4), batch_norm := True\<rparr>) - 1 \<and>
   (\<exists>x' tr. decoder_level ((default_config 2)\<lparr>nconv := 3, dropout_in := PyFloat (1/4), batch_norm := True\<rparr>) (1::int) (Some 5, [3], level0_graph) =
        Inr (x', [3],
             level0_graph @ spec_residual_block ((default_config 2)\<lparr>nconv := 3, dropout_in := PyFloat (1/4), batch_norm := True\<rparr>) (nfm ((default_config 2)\<lparr>nconv := 3, dropout_in := PyFloat (1/4), batch_norm := True\<rparr>) * 2 ^ nat ((1::int) + 1)) (length level0_graph) 5 @
               Add [length level0_graph +
                    length (spec_residual_block ((default_config 2)\<lparr>nconv := 3, dropout_in := PyFloat (1/4), batch_norm := True\<rparr>) (nfm ((default_config 2)\<lparr>nconv := 3, dropout_in := PyFloat (1/4), batch_norm := True\<rparr>) * 2 ^ nat ((1::int) + 1)) (length level0_graph) 5) - 1,
                    5] # tr)) \<and>
   (0::int) \<noteq> nlevels ((default_config 2)\<lparr>nconv := 3, dropout_in := PyFloat (1/4), batch_norm := True\<rparr>) - 1 \<and> 0 \<le> (0::int) \<and> (0::int) + 1 < int (length [3, 3]) \<and>
   (\<exists>x' tr. decoder_level ((default_config 2)\<lparr>nconv := 3, dropout_in := PyFloat (1/4), batch_norm := True\<rparr>) (0::int) (Some 5, [3, 3], level0_graph) =
        Inr (x', [3, 3],
             level0_graph @ Concatenate (- 1) [[3, 3] ! nat ((0::int) + 1), 5] #
               spec_residual_block ((default_config 2)\<lparr>nconv := 3, dropout_in := PyFloat (1/4), batch_norm := True\<rparr>) (nfm ((default_config 2)\<lparr>nconv := 3, dropout_in := PyFloat (1/4), batch_norm := True\<rparr>) * 2 ^ nat ((0::int) + 1)) (Suc (length level0_graph)) (length level0_graph) @
               Add [length level0_graph +
                    length (spec_residual_block ((default_config 2)\<lparr>nconv := 3, dropout_in := PyFloat (1/4), batch_norm := True\<rparr>) (nfm ((default_config 2)\<lparr>nconv := 3, dropout_in := PyFloat (1/4), batch_norm := True\<rparr>) * 2 ^ nat ((0::int) + 1))
                      (Suc (length level0_graph)) (length level0_graph)), 5] # tr))"
proof -
  have h1: "(1::int) \<noteq> 0"
    by (simp add: default_config_def)
  note t1 = C6_residual_block [where fi = "(1::int)" and cfg = "((default_config 2)\<lparr>nconv := 3, dropout_in := PyFloat (1/4), batch_norm := True\<rparr>)" and inp = "0" and t = "5" and fl = "[3]" and g = "level0_graph", THEN conjunct1, THEN mp, OF h1]
  have e1: "encoder_level ((default_config 2)\<lparr>nconv := 3, dropout_in := PyFloat (1/4), batch_norm := True\<rparr>) 0 1 (Some 5, [3], level0_graph) =
     Inr (Some 19, [3, 16],
         [Input (64, 64, 64, 1), Conv3D 16 (5, 5, 5) (1, 1, 1) Same 0, PReLU 1,
          Add [2, 0], Conv3D 32 (2, 2, 2) (2, 2, 2) Valid 3, PReLU 4,
          Conv3D 32 (5, 5, 5) (1, 1, 1) Same 5, PReLU 6, Dropout (1 / 4) 7,
          Conv3D 32 (5, 5, 5) (1, 1, 1) Same 8, PReLU 9, Dropout (1 / 4) 10,
          Conv3D 32 (5, 5, 5) (1, 1, 1) Same 11, BatchNormalization False 12,
          PReLU 13, Dropout (1 / 4) 14, Add [15, 5],
          Conv3D 64 (2, 2, 2) (2, 2, 2) Valid 16, BatchNormalization False 17,
          PReLU 18])"
    by code_simp
  have h2: "(1::int) = nlevels ((default_config 2)\<lparr>nconv := 3, dropout_in := PyFloat (1/4), batch_norm := True\<rparr>) - 1"
    by (simp add: default_config_def)
  note t2 = C6_residual_block [where fi = "(1::int)" and cfg = "((default_config 2)\<lparr>nconv := 3, dropout_in := PyFloat (1/4), batch_norm := True\<rparr>)" and t = "5" and fl = "[3]" and g = "level0_graph", THEN conjunct2, THEN conjunct1, THEN mp, OF h2]
  have h3: "(0::int) \<noteq> nlevels ((default_config 2)\<lparr>nconv := 3, dropout_in := PyFloat (1/4), batch_norm := True\<rparr>) - 1 \<and> 0 \<le> (0::int) \<and> (0::int) + 1 < int (length [3, 3])"
    by (simp add: default_config_def)
  note t3 = C6_residual_block [where fi = "(0::int)" and cfg = "((default_config 2)\<lparr>nconv := 3, dropout_in := PyFloat (1/4), batch_norm := True\<rparr>)" and t = "5" and fl = "[3, 3]" and g = "level0_graph", THEN conjunct2, THEN conjunct2, THEN conjunct1, THEN mp, OF h3]
  from h1 t1 e1 h2 t2 h3 t3 show ?thesis
    by (intro conjI) (elim conjE, assumption)+
qed

subsection \<open>C7: the fusion stage and the classification head\<close>

text \<open>
  C7: for \<open>nlevels \<ge> 1\<close> the builder returns a model whose graph is the graph \<open>g\<close>
  left by the decoder loop followed by exactly eight layers: the concatenation of
  forward-feature entry 0 with the decoder output \<open>x\<close> (the last node of \<open>g\<close>); a
  5x5x5 and a 1x1x1 same-padding convolution to \<open>nfm\<close> channels, both reading that
  concatenation; their sum; one activation (no normalisation, no dropout); a 1x1x1
  convolution to 2 channels; one activation; and the softmax activation, which is the
  output of the model.
\<close>

theorem C7_fusion_head:
  assumes "1 \<le> nlevels cfg"
  shows "\<exists>s x fl g.
     encoder cfg 0 (py_range (nlevels cfg)) (None, [], [Input (input_shape cfg)]) = Inr s \<and>
     decoder cfg (rev (py_range (nlevels cfg))) s = Inr (Some x, fl, g) \<and>
     x = length g - 1 \<and> fl \<noteq> [] \<and>
     get_model cfg =
       Inr \<lparr>inputs = 0, outputs = length g + 7,
            layers = g @
              [Concatenate (- 1) [fl ! 0, x],
               Conv3D (nfm cfg) (5, 5, 5) (1, 1, 1) Same (length g),
               Conv3D (nfm cfg) (1, 1, 1) (1, 1, 1) Same (length g),
               Add [length g + 1, length g + 2],
               activation cfg (length g + 3),
               Conv3D 2 (1, 1, 1) (1, 1, 1) Valid (length g + 4),
               activation cfg (length g + 5),
               Activation ''softmax'' (length g + 6)]\<rparr>"
proof -
  from assms obtain x fl g x' new where
    e: "encoder cfg 0 (py_range (nlevels cfg)) (None, [], [Input (input_shape cfg)]) =
          Inr (Some x, fl, g)" and
    lf: "length fl = nat (nlevels cfg)" and
    d: "decoder cfg (rev (py_range (nlevels cfg))) (Some x, fl, g) = Inr (Some x', fl, g @ new)" and
    x': "x' = length g + length new - 1" and
    m: "get_model cfg =
           Inr \<lparr>inputs = 0, outputs = length g + length new + 7,
                layers = g @ new @ head_layers cfg (length g + length new) (fl ! 0) x'\<rparr>"
    by (rule get_model_run)
  have ne: "fl \<noteq> []"
    using lf assms by auto
  show ?thesis
    apply (rule exI [of _ "(Some x, fl, g)"], rule exI [of _ x'], rule exI [of _ fl])
    apply (rule exI [of _ "g @ new"])
    using e d x' ne m
    apply (simp add: head_layers_def)
    done
qed

theorem C7_fusion_head_witness:
  "1 \<le> nlevels (default_config 1) \<and>
   get_model (default_config 1) =
     Inr \<lparr>inputs = 0, outputs = 20,
        layers =
          [Input (64, 64, 64, 1), Conv3D 16 (5, 5, 5) (1, 1, 1) Same 0,
           PReLU 1, Add [2, 0], Conv3D 32 (2, 2, 2) (2, 2, 2) Valid 3,
           PReLU 4, Conv3D 32 (5, 5, 5) (1, 1, 1) Same 5, PReLU 6,
           Conv3D 32 (5, 5, 5) (1, 1, 1) Same 7, PReLU 8, Add [9, 5],
           Conv3DTranspose 16 (2, 2, 2) (2, 2, 2) 10, PReLU 11,
           Concatenate (- 1) [3, 12], Conv3D 16 (5, 5, 5) (1, 1, 1) Same 13,
           Conv3D 16 (1, 1, 1) (1, 1, 1) Same 13, Add [14, 15], PReLU 16,
           Conv3D 2 (1, 1, 1) (1, 1, 1) Valid 17, PReLU 18,
           Activation ''softmax'' 19]\<rparr> \<and>
   (\<exists>g x f. get_model (default_config 1) =
     Inr \<lparr>inputs = 0, outputs = length g + 7,
          layers = g @
              [Concatenate (- 1) [f, x],
               Conv3D (nfm (default_config 1)) (5, 5, 5) (1, 1, 1) Same (length g),
               Conv3D (nfm (default_config 1)) (1, 1, 1) (1, 1, 1) Same (length g),
               Add [length g + 1, length g + 2],
               activation (default_config 1) (length g + 3),
               Conv3D 2 (1, 1, 1) (1, 1, 1) Valid (length g + 4),
               activation (default_config 1) (length g + 5),
               Activation ''softmax'' (length g + 6)]\<rparr>)"
proof -
  have n: "1 \<le> nlevels (default_config 1)"
    by (simp add: default_config_def)
  have v: "get_model (default_config 1) =
     Inr \<lparr>inputs = 0, outputs = 20,
        layers =
          [Input (64, 64, 64, 1), Conv3D 16 (5, 5, 5) (1, 1, 1) Same 0,
           PReLU 1, Add [2, 0], Conv3D 32 (2, 2, 2) (2, 2, 2) Valid 3,
           PReLU 4, Conv3D 32 (5, 5, 5) (1, 1, 1) Same 5, PReLU 6,
           Conv3D 32 (5, 5, 5) (1, 1, 1) Same 7, PReLU 8, Add [9, 5],
           Conv3DTranspose 16 (2, 2, 2) (2, 2, 2) 10, PReLU 11,
           Concatenate (- 1) [3, 12], Conv3D 16 (5, 5, 5) (1, 1, 1) Same 13,
           Conv3D 16 (1, 1, 1) (1, 1, 1) Same 13, Add [14, 15], PReLU 16,
           Conv3D 2 (1, 1, 1) (1, 1, 1) Valid 17, PReLU 18,
           Activation ''softmax'' 19]\<rparr>"
    by code_simp
  from C7_fusion_head [OF n] obtain x fl g where
    "get_model (default_config 1) =
       Inr \<lparr>inputs = 0, outputs = length g + 7,
            layers = g @
              [Concatenate (- 1) [fl ! 0, x],
               Conv3D (nfm (default_config 1)) (5, 5, 5) (1, 1, 1) Same (length g),
               Conv3D (nfm (default_config 1)) (1, 1, 1) (1, 1, 1) Same (length g),
               Add [length g + 1, length g + 2],
               activation (default_config 1) (length g + 3),
               Conv3D 2 (1, 1, 1) (1, 1, 1) Valid (length g + 4),
               activation (default_config 1) (length g + 5),
               Activation ''softmax'' (length g + 6)]\<rparr>"
    by (elim exE conjE)
  then have "\<exists>g x f. get_model (default_config 1) =
     Inr \<lparr>inputs = 0, outputs = length g + 7,
          layers = g @
              [Concatenate (- 1) [f, x],
               Conv3D (nfm (default_config 1)) (5, 5, 5) (1, 1, 1) Same (length g),
               Conv3D (nfm (default_config 1)) (1, 1, 1) (1, 1, 1) Same (length g),
               Add [length g + 1, length g + 2],
               activation (default_config 1) (length g + 3),
               Conv3D 2 (1, 1, 1) (1, 1, 1) Valid (length g + 4),
               activation (default_config 1) (length g + 5),
               Activation ''softmax'' (length g + 6)]\<rparr>"
    by (intro exI)
  with n v show ?thesis by (intro conjI)
qed

subsection \<open>C8: the residual sum of encoder level 0\<close>

text \<open>
  C8 says that the two operands of the sum of encoder level 0 have one and the same
  shape, nothing being broadcast, and that the sum is therefore well-formed in every
  valid configuration. In the default configuration the residual (node 2) has 16
  channels and the raw input (node 0) has 1: the operands of the sum (node 3) do not
  have the same shape, and the sum is well-formed, with 16 channels, only because the
  framework stretches the one channel of the input. With a 3-channel input and the same
  16 feature maps nothing can be stretched, and the sum has no shape.
\<close>

theorem C8_counterexample:
  "get_model (default_config 1) = Inr \<lparr>inputs = 0, outputs = 20, layers = default_layers\<rparr> \<and>
   default_layers ! 3 = Add [2, 0] \<and>
   shape_of default_layers 2 = Some (64, 64, 64, 16) \<and>
   shape_of default_layers 0 = Some (64, 64, 64, 1) \<and>
   shape_of default_layers 2 \<noteq> shape_of default_layers 0 \<and>
   shape_of default_layers 3 = Some (64, 64, 64, 16) \<and>
   \<not> isl (get_model ((default_config 1)\<lparr>input_shape := (64, 64, 64, 3)\<rparr>)) \<and>
   shape_of (layers (projr (get_model ((default_config 1)\<lparr>input_shape := (64, 64, 64, 3)\<rparr>)))) 2 =
     Some (64, 64, 64, 16) \<and>
   shape_of (layers (projr (get_model ((default_config 1)\<lparr>input_shape := (64, 64, 64, 3)\<rparr>)))) 0 =
     Some (64, 64, 64, 3) \<and>
   shape_of (layers (projr (get_model ((default_config 1)\<lparr>input_shape := (64, 64, 64, 3)\<rparr>)))) 3 =
     None"
  by code_simp

text \<open>
  C8, as the code has it: for \<open>nlevels \<ge> 1\<close> and \<open>input_shape = (X, Y, Z, C)\<close> the graph
  starts with the input, the 5x5x5 same-padding convolution to \<open>nfm\<close> channels, its
  activation, and the sum of that activation with the input. The residual has the shape
  \<open>(X, Y, Z, nfm)\<close> and the input \<open>(X, Y, Z, C)\<close>, which are equal exactly when
  \<open>nfm = C\<close>. The sum is well-formed exactly when \<open>nfm = C\<close>, \<open>nfm = 1\<close> or \<open>C = 1\<close>;
  with a 1-channel input (the default) it is well-formed for every \<open>nfm\<close> and has the
  shape \<open>(X, Y, Z, nfm)\<close>, and with \<open>nfm = 1\<close> it has the shape of the input.
\<close>

theorem C8_level0_sum:
  assumes "1 \<le> nlevels cfg" and "input_shape cfg = (X, Y, Z, C)"
  shows "\<exists>m. get_model cfg = Inr m \<and>
     take 4 (layers m) =
       [Input (X, Y, Z, C), Conv3D (nfm cfg) (5, 5, 5) (1, 1, 1) Same 0, activation cfg 1,
        Add [2, 0]] \<and>
     shape_of (layers m) 2 = Some (X, Y, Z, nfm cfg) \<and>
     shape_of (layers m) 0 = Some (X, Y, Z, C) \<and>
     (shape_of (layers m) 2 = shape_of (layers m) 0) = (nfm cfg = C) \<and>
     (shape_of (layers m) 3 \<noteq> None) = (nfm cfg = C \<or> nfm cfg = 1 \<or> C = 1) \<and>
     (C = 1 \<longrightarrow> shape_of (layers m) 3 = Some (X, Y, Z, nfm cfg)) \<and>
     (nfm cfg = 1 \<longrightarrow> shape_of (layers m) 3 = Some (X, Y, Z, C))"
proof -
  from get_model_level0 [OF assms(1)] obtain m rest where
    m: "get_model cfg = Inr m" and l: "layers m = level0_head cfg @ rest"
    by blast
  have s: "shape_of (layers m) t = shape_of (level0_head cfg) t" if "t < 4" for t
    unfolding l using that by (intro shape_of_append) (simp add: level0_head_def)
  have t4: "take 4 (layers m) = level0_head cfg"
    by (simp add: l level0_head_def)
  have s2: "shape_of (layers m) 2 = Some (X, Y, Z, nfm cfg)"
  proof -
    have "shape_of (layers m) 2 = shape_of (level0_head cfg) 2" by (rule s) simp
    then show ?thesis
      by (simp add: shape_of_def level0_shapes [OF assms(2)] shape_at_def)
  qed
  have s0: "shape_of (layers m) 0 = Some (X, Y, Z, C)"
  proof -
    have "shape_of (layers m) 0 = shape_of (level0_head cfg) 0" by (rule s) simp
    then show ?thesis
      by (simp add: shape_of_def level0_shapes [OF assms(2)] shape_at_def)
  qed
  have s3: "shape_of (layers m) 3 =
      (case broadcast_dim (nfm cfg) C of Some c \<Rightarrow> Some (X, Y, Z, c) | None \<Rightarrow> None)"
  proof -
    have "shape_of (layers m) 3 = shape_of (level0_head cfg) 3" by (rule s) simp
    then show ?thesis
      by (simp add: shape_of_def level0_shapes [OF assms(2)] shape_at_def)
  qed
  have a: "(shape_of (layers m) 2 = shape_of (layers m) 0) = (nfm cfg = C)"
    by (simp add: s2 s0)
  have b: "(shape_of (layers m) 3 \<noteq> None) = (nfm cfg = C \<or> nfm cfg = 1 \<or> C = 1)"
    by (auto simp: s3 broadcast_dim_def)
  have c: "C = 1 \<longrightarrow> shape_of (layers m) 3 = Some (X, Y, Z, nfm cfg)"
    by (auto simp: s3 broadcast_dim_def)
  have d: "nfm cfg = 1 \<longrightarrow> shape_of (layers m) 3 = Some (X, Y, Z, C)"
    by (auto simp: s3 broadcast_dim_def)
  have t4': "take 4 (layers m) =
       [Input (X, Y, Z, C), Conv3D (nfm cfg) (5, 5, 5) (1, 1, 1) Same 0, activation cfg 1,
        Add [2, 0]]"
    using t4 assms(2) by (simp add: level0_head_def)
  from m t4' s2 s0 a b c d show ?thesis
    by (intro exI [of _ m] conjI)
qed

theorem C8_level0_sum_witness:
  "1 \<le> nlevels (default_config 1) \<and>
   input_shape (default_config 1) = (64, 64, 64, 1) \<and>
   (\<exists>m. get_model (default_config 1) = Inr m \<and>
      shape_of (layers m) 2 = Some (64, 64, 64, 16) \<and>
      shape_of (layers m) 0 = Some (64, 64, 64, 1) \<and>
      shape_of (layers m) 3 = Some (64, 64, 64, 16))"
proof -
  have a: "1 \<le> nlevels (default_config 1)"
    by (simp add: default_config_def)
  have b: "input_shape (default_config 1) = (64, 64, 64, 1)"
    by (simp add: default_config_def)
  from C8_level0_sum [OF a b] obtain m where
    "get_model (default_config 1) = Inr m" and
    "shape_of (layers m) 2 = Some (64, 64, 64, nfm (default_config 1))" and
    "shape_of (layers m) 0 = Some (64, 64, 64, 1)" and
    "(1::int) = 1 \<longrightarrow> shape_of (layers m) 3 = Some (64, 64, 64, nfm (default_config 1))"
    by (elim exE conjE)
  then have "get_model (default_config 1) = Inr m \<and>
      shape_of (layers m) 2 = Some (64, 64, 64, 16) \<and>
      shape_of (layers m) 0 = Some (64, 64, 64, 1) \<and>
      shape_of (layers m) 3 = Some (64, 64, 64, 16)"
    by (simp add: default_config_def)
  then have "\<exists>m. get_model (default_config 1) = Inr m \<and>
      shape_of (layers m) 2 = Some (64, 64, 64, 16) \<and>
      shape_of (layers m) 0 = Some (64, 64, 64, 1) \<and>
      shape_of (layers m) 3 = Some (64, 64, 64, 16)"
    by (rule exI)
  with a b show ?thesis by (intro conjI)
qed

subsection \<open>C9: invalid configurations\<close>

text \<open>
  C9 says that a non-positive \<open>nlevels\<close>, \<open>nfm\<close> or \<open>nconv\<close> makes the construction
  call fail. For \<open>nconv\<close> it does not: \<open>range(nconv-1)\<close> is empty, the loop of
  additional convolutions does not run, every layer that is built is one the framework
  accepts, and the call returns a model. With \<open>nconv = 0\<close> and one level:
\<close>

theorem C9_counterexample:
  "nconv ((default_config 1)\<lparr>nconv := 0\<rparr>) \<le> 0 \<and>
   construct ((default_config 1)\<lparr>nconv := 0\<rparr>) =
     Inr \<lparr>inputs = 0, outputs = 18,
        layers =
          [Input (64, 64, 64, 1), Conv3D 16 (5, 5, 5) (1, 1, 1) Same 0,
           PReLU 1, Add [2, 0], Conv3D 32 (2, 2, 2) (2, 2, 2) Valid 3,
           PReLU 4, Conv3D 32 (5, 5, 5) (1, 1, 1) Same 5, PReLU 6, Add [7, 5],
           Conv3DTranspose 16 (2, 2, 2) (2, 2, 2) 8, PReLU 9,
           Concatenate (- 1) [3, 10], Conv3D 16 (5, 5, 5) (1, 1, 1) Same 11,
           Conv3D 16 (1, 1, 1) (1, 1, 1) Same 11, Add [12, 13], PReLU 14,
           Conv3D 2 (1, 1, 1) (1, 1, 1) Valid 15, PReLU 16,
           Activation ''softmax'' 17]\<rparr>"
  by code_simp

text \<open>
  C9, as the code has it: a non-positive \<open>nlevels\<close> or \<open>nfm\<close> makes the construction
  call fail. With \<open>nlevels \<le> 0\<close> both loops are empty and the read of
  \<open>forward_list[0]\<close> at the fusion stage raises \<open>IndexError\<close>; with \<open>nfm \<le> 0\<close> and
  at least one level the first convolution asks for \<open>nfm\<close> filters and the framework
  refuses it. A non-positive \<open>nconv\<close> is no failure of its own: the call then does
  exactly what it does for \<open>nconv = 1\<close>.
\<close>

theorem C9_construction_failures:
  "(nlevels cfg \<le> 0 \<longrightarrow> get_model cfg = Inl IndexError \<and> construct cfg = Inl IndexError) \<and>
   (nfm cfg \<le> 0 \<longrightarrow>
      (\<exists>e. construct cfg = Inl e) \<and> (1 \<le> nlevels cfg \<longrightarrow> construct cfg = Inl ValueError)) \<and>
   (nconv cfg \<le> 0 \<longrightarrow>
      get_model cfg = get_model (cfg\<lparr>nconv := 1\<rparr>) \<and>
      construct cfg = construct (cfg\<lparr>nconv := 1\<rparr>))"
proof (intro conjI impI)
  assume "nlevels cfg \<le> 0"
  then show "get_model cfg = Inl IndexError" by (rule get_model_no_levels)
next
  assume "nlevels cfg \<le> 0"
  then show "construct cfg = Inl IndexError" by (rule construct_no_levels)
next
  assume f: "nfm cfg \<le> 0"
  show "\<exists>e. construct cfg = Inl e"
  proof (cases "1 \<le> nlevels cfg")
    case True
    from construct_bad_filters [OF this f] show ?thesis by (intro exI)
  next
    case False
    then have "nlevels cfg \<le> 0" by simp
    from construct_no_levels [OF this] show ?thesis by (intro exI)
  qed
next
  assume "nfm cfg \<le> 0" and "1 \<le> nlevels cfg"
  then show "construct cfg = Inl ValueError"
    by (intro construct_bad_filters)
next
  assume "nconv cfg \<le> 0"
  then have "nconv cfg \<le> 1" by simp
  then show "get_model cfg = get_model (cfg\<lparr>nconv := 1\<rparr>)"
    by (simp add: get_model_nconv)
next
  assume "nconv cfg \<le> 0"
  then have "nconv cfg \<le> 1" by simp
  then show "construct cfg = construct (cfg\<lparr>nconv := 1\<rparr>)"
    by (simp add: construct_nconv)
qed

theorem C9_construction_failures_witness:
  "nlevels (default_config 0) \<le> 0 \<and> construct (default_config 0) = Inl IndexError \<and>
   nfm ((default_config 1)\<lparr>nfm := 0\<rparr>) \<le> 0 \<and>
   1 \<le> nlevels ((default_config 1)\<lparr>nfm := 0\<rparr>) \<and>
   construct ((default_config 1)\<lparr>nfm := 0\<rparr>) = Inl ValueError \<and>
   nconv ((default_config 2)\<lparr>nconv := - 1\<rparr>) \<le> 0 \<and>
   construct ((default_config 2)\<lparr>nconv := - 1\<rparr>) = construct ((default_config 2)\<lparr>nconv := 1\<rparr>)"
proof -
  have a: "nlevels (default_config 0) \<le> 0"
    by (simp add: default_config_def)
  have b: "nfm ((default_config 1)\<lparr>nfm := 0\<rparr>) \<le> 0"
    by simp
  have b': "1 \<le> nlevels ((default_config 1)\<lparr>nfm := 0\<rparr>)"
    by (simp add: default_config_def)
  have c: "nconv ((default_config 2)\<lparr>nconv := - 1\<rparr>) \<le> 0"
    by simp
  from C9_construction_failures [of "default_config 0", THEN conjunct1, rule_format, OF a]
  have 1: "construct (default_config 0) = Inl IndexError"
    by (rule conjunct2)
  from C9_construction_failures [of "(default_config 1)\<lparr>nfm := 0\<rparr>", THEN conjunct2,
      THEN conjunct1, rule_format, OF b]
  have 2: "construct ((default_config 1)\<lparr>nfm := 0\<rparr>) = Inl ValueError"
    using b' by blast
  from C9_construction_failures [of "(default_config 2)\<lparr>nconv := - 1\<rparr>", THEN conjunct2,
      THEN conjunct2, rule_format, OF c]
  have 3: "construct ((default_config 2)\<lparr>nconv := - 1\<rparr>) =
           construct ((default_config 2)\<lparr>nconv := 1\<rparr>)"
    by simp
  from a 1 b b' 2 c 3 show ?thesis by (intro conjI)
qed

subsection \<open>C10: one convolution per block\<close>

text \<open>
  C10: with \<open>nconv = 1\<close> the residual block of an encoder level \<open>fi \<noteq> 0\<close> and of every
  decoder level is one 5x5x5 convolution, its activation and (for a non-zero
  \<open>dropout_in\<close>) one dropout layer; it holds no batch normalisation layer, whatever the
  \<open>batch_norm\<close> flag.
\<close>

theorem C10_single_convolution:
  assumes "nconv cfg = 1"
  shows "(fi \<noteq> 0 \<longrightarrow>
     (\<exists>x' tr. encoder_level cfg inp fi (Some t, fl, g) =
        Inr (x', fl @ [length g + length (single_conv_block cfg (nfm cfg * 2 ^ nat fi) (length g) t)],
             g @ single_conv_block cfg (nfm cfg * 2 ^ nat fi) (length g) t @
               Add [length g + length (single_conv_block cfg (nfm cfg * 2 ^ nat fi) (length g) t) - 1,
                    t] # tr))) \<and>
   (fi = nlevels cfg - 1 \<longrightarrow>
     (\<exists>x' tr. decoder_level cfg fi (Some t, fl, g) =
        Inr (x', fl,
             g @ single_conv_block cfg (nfm cfg * 2 ^ nat (fi + 1)) (length g) t @
               Add [length g +
                    length (single_conv_block cfg (nfm cfg * 2 ^ nat (fi + 1)) (length g) t) - 1,
                    t] # tr))) \<and>
   (fi \<noteq> nlevels cfg - 1 \<and> 0 \<le> fi \<and> fi + 1 < int (length fl) \<longrightarrow>
     (\<exists>x' tr. decoder_level cfg fi (Some t, fl, g) =
        Inr (x', fl,
             g @ Concatenate (- 1) [fl ! nat (fi + 1), t] #
               single_conv_block cfg (nfm cfg * 2 ^ nat (fi + 1)) (Suc (length g)) (length g) @
               Add [length g +
                    length (single_conv_block cfg (nfm cfg * 2 ^ nat (fi + 1))
                      (Suc (length g)) (length g)), t] # tr))) \<and>
   \<not> list_ex is_BatchNormalization (single_conv_block cfg F n r) \<and>
   conv_filters (single_conv_block cfg F n r) = [F]"
proof (intro conjI impI)
  assume a: "fi \<noteq> 0"
  show "\<exists>x' tr. encoder_level cfg inp fi (Some t, fl, g) =
        Inr (x', fl @ [length g + length (single_conv_block cfg (nfm cfg * 2 ^ nat fi) (length g) t)],
             g @ single_conv_block cfg (nfm cfg * 2 ^ nat fi) (length g) t @
               Add [length g + length (single_conv_block cfg (nfm cfg * 2 ^ nat fi) (length g) t) - 1,
                    t] # tr)"
    using encoder_level_block [OF a, of cfg inp t fl g]
    unfolding residual_layers_single [OF assms] by (intro exI)
next
  assume a: "fi = nlevels cfg - 1"
  show "\<exists>x' tr. decoder_level cfg fi (Some t, fl, g) =
        Inr (x', fl,
             g @ single_conv_block cfg (nfm cfg * 2 ^ nat (fi + 1)) (length g) t @
               Add [length g +
                    length (single_conv_block cfg (nfm cfg * 2 ^ nat (fi + 1)) (length g) t) - 1,
                    t] # tr)"
    using decoder_level_block_deepest [OF a, of t fl g]
    unfolding residual_layers_single [OF assms] by (intro exI)
next
  assume a: "fi \<noteq> nlevels cfg - 1 \<and> 0 \<le> fi \<and> fi + 1 < int (length fl)"
  then have a1: "fi \<noteq> nlevels cfg - 1" and a2: "0 \<le> fi" and a3: "fi + 1 < int (length fl)"
    by simp_all
  show "\<exists>x' tr. decoder_level cfg fi (Some t, fl, g) =
        Inr (x', fl,
             g @ Concatenate (- 1) [fl ! nat (fi + 1), t] #
               single_conv_block cfg (nfm cfg * 2 ^ nat (fi + 1)) (Suc (length g)) (length g) @
               Add [length g +
                    length (single_conv_block cfg (nfm cfg * 2 ^ nat (fi + 1))
                      (Suc (length g)) (length g)), t] # tr)"
    using decoder_level_block_skip [OF a1 a2 a3, of t g]
    unfolding residual_layers_single [OF assms] by (intro exI)
next
  show "\<not> list_ex is_BatchNormalization (single_conv_block cfg F n r)"
    by (simp add: single_conv_block_def)
  show "conv_filters (single_conv_block cfg F n r) = [F]"
    by (simp add: single_conv_block_def activation_def split: option.splits)
qed

theorem C10_single_convolution_witness:
  "nconv ((default_config 2)\<lparr>nconv := 1, batch_norm := True\<rparr>) = 1 \<and>
   (1::int) \<noteq> 0 \<and>
   (\<exists>x' tr. encoder_level ((default_config 2)\<lparr>nconv := 1, batch_norm := True\<rparr>) 0 (1::int) (Some 5, [3], level0_graph) =
        Inr (x', [3] @ [length level0_graph + length (single_conv_block ((default_config 2)\<lparr>nconv := 1, batch_norm := True\<rparr>) (nfm ((default_config 2)\<lparr>nconv := 1, batch_norm := True\<rparr>) * 2 ^ nat (1::int)) (length level0_graph) 5)],
             level0_graph @ single_conv_block ((default_config 2)\<lparr>nconv := 1, batch_norm := True\<rparr>) (nfm ((default_config 2)\<lparr>nconv := 1, batch_norm := True\<rparr>) * 2 ^ nat (1::int)) (length level0_graph) 5 @
               Add [length level0_graph + length (single_conv_block ((default_config 2)\<lparr>nconv := 1, batch_norm := True\<rparr>) (nfm ((default_config 2)\<lparr>nconv := 1, batch_norm := True\<rparr>) * 2 ^ nat (1::int)) (length level0_graph) 5) - 1,
                    5] # tr)) \<and>
   encoder_level ((default_config 2)\<lparr>nconv := 1, batch_norm := True\<rparr>) 0 1 (Some 5, [3], level0_graph) =
     Inr (Some 11, [3, 8],
         [Input (64, 64, 64, 1), Conv3D 16 (5, 5, 5) (1, 1, 1) Same 0, PReLU 1,
          Add [2, 0], Conv3D 32 (2, 2, 2) (2, 2, 2) Valid 3, PReLU 4,
          Conv3D 32 (5, 5, 5) (1, 1, 1) Same 5, PReLU 6, Add [7, 5],
          Conv3D 64 (2, 2, 2) (2, 2, 2) Valid 8, BatchNormalization False 9,
          PReLU 10]) \<and>
   nconv ((default_config 2)\<lparr>nconv := 1, batch_norm := True\<rparr>) = 1 \<and>
   (1::int) = nlevels ((default_config 2)\<lparr>nconv := 1, batch_norm := True\<rparr>) - 1 \<and>
   (\<exists>x' tr. decoder_level ((default_config 2)\<lparr>nconv := 1, batch_norm := True\<rparr>) (1::int) (Some 5, [3], level0_graph) =
        Inr (x', [3],
             level0_graph @ single_conv_block ((default_config 2)\<lparr>nconv := 1, batch_norm := True\<rparr>) (nfm ((default_config 2)\<lparr>nconv := 1, batch_norm := True\<rparr>) * 2 ^ nat ((1::int) + 1)) (length level0_graph) 5 @
               Add [length level0_graph +
                    length (single_conv_block ((default_config 2)\<lparr>nconv := 1, batch_norm := True\<rparr>) (nfm ((default_config 2)\<lparr>nconv := 1, batch_norm := True\<rparr>) * 2 ^ nat ((1::int) + 1)) (length level0_graph) 5) - 1,
                    5] # tr)) \<and>
   nconv ((default_config 2)\<lparr>nconv := 1, batch_norm := True\<rparr>) = 1 \<and>
   (0::int) \<noteq> nlevels ((default_config 2)\<lparr>nconv := 1, batch_norm := True\<rparr>) - 1 \<and> 0 \<le> (0::int) \<and> (0::int) + 1 < int (length [3, 3]) \<and>
   (\<exists>x' tr. decoder_level ((default_config 2)\<lparr>nconv := 1, batch_norm := True\<rparr>) (0::int) (Some 5, [3, 3], level0_graph) =
        Inr (x', [3, 3],
             level0_graph @ Concatenate (- 1) [[3, 3] ! nat ((0::int) + 1), 5] #
               single_conv_block ((default_config 2)\<lparr>nconv := 1, batch_norm := True\<rparr>) (nfm ((default_config 2)\<lparr>nconv := 1, batch_norm := True\<rparr>) * 2 ^ nat ((0::int) + 1)) (Suc (length level0_graph)) (length level0_graph) @
               Add [length level0_graph +
                    length (single_conv_block ((default_config 2)\<lparr>nconv := 1, batch_norm := True\<rparr>) (nfm ((default_config 2)\<lparr>nconv := 1, batch_norm := True\<rparr>) * 2 ^ nat ((0::int) + 1))
                      (Suc (length level0_graph)) (length level0_graph)), 5] # tr))"
proof -
  have p1: "nconv ((default_config 2)\<lparr>nconv := 1, batch_norm := True\<rparr>) = 1"
    by (simp add: default_config_def)
  have h1: "(1::int) \<noteq> 0"
    by (simp add: default_config_def)
  note t1 = C10_single_convolution [where fi = "(1::int)" and cfg = "((default_config 2)\<lparr>nconv := 1, batch_norm := True\<rparr>)" and inp = "0" and t = "5" and fl = "[3]" and g = "level0_graph", OF p1, THEN conjunct1, THEN mp, OF h1]
  have e1: "encoder_level ((default_config 2)\<lparr>nconv := 1, batch_norm := True\<rparr>) 0 1 (Some 5, [3], level0_graph) =
     Inr (Some 11, [3, 8],
         [Input (64, 64, 64, 1), Conv3D 16 (5, 5, 5) (1, 1, 1) Same 0, PReLU 1,
          Add [2, 0], Conv3D 32 (2, 2, 2) (2, 2, 2) Valid 3, PReLU 4,
          Conv3D 32 (5, 5, 5) (1, 1, 1) Same 5, PReLU 6, Add [7, 5],
          Conv3D 64 (2, 2, 2) (2, 2, 2) Valid 8, BatchNormalization False 9,
          PReLU 10])"
    by code_simp
  have p2: "nconv ((default_config 2)\<lparr>nconv := 1, batch_norm := True\<rparr>) = 1"
    by (simp add: default_config_def)
  have h2: "(1::int) = nlevels ((default_config 2)\<lparr>nconv := 1, batch_norm := True\<rparr>) - 1"
    by (simp add: default_config_def)
  note t2 = C10_single_convolution [where fi = "(1::int)" and cfg = "((default_config 2)\<lparr>nconv := 1, batch_norm := True\<rparr>)" and t = "5" and fl = "[3]" and g = "level0_graph", OF p2, THEN conjunct2, THEN conjunct1, THEN mp, OF h2]
  have p3: "nconv ((default_config 2)\<lparr>nconv := 1, batch_norm := True\<rparr>) = 1"
    by (simp add: default_config_def)
  have h3: "(0::int) \<noteq> nlevels ((default_config 2)\<lparr>nconv := 1, batch_norm := True\<rparr>) - 1 \<and> 0 \<le> (0::int) \<and> (0::int) + 1 < int (length [3, 3])"
    by (simp add: default_config_def)
  note t3 = C10_single_convolution [where fi = "(0::int)" and cfg = "((default_config 2)\<lparr>nconv := 1, batch_norm := True\<rparr>)" and t = "5" and fl = "[3, 3]" and g = "level0_graph", OF p3, THEN conjunct2, THEN conjunct2, THEN conjunct1, THEN mp, OF h3]
  from p1 h1 t1 e1 p2 h2 t2 p3 h3 t3 show ?thesis
    by (intro conjI) (elim conjE, assumption)+
qed

end
